theory Spec2Isabelle
  imports Complex_Main "HOL-Library.Sublist" "HOL-Library.Multiset"
begin

section \<open>Python values shared by the services\<close>

text \<open>
  Python text is modelled as \<^typ>\<open>string\<close>, one \<^typ>\<open>char\<close> per character. \<open>str.lower()\<close>
  is modelled on the ASCII letters; every other character is left as it is. (Python
  also lowers letters outside ASCII; the only ones it lowers to text with an ASCII letter
  in it give \<open>k\<close>, which no keyword of the program contains, or \<open>i\<close> followed by a
  combining mark, which no keyword contains and no keyword ends in \<open>i\<close>. So the keyword
  tests below agree with Python's.)
\<close>

definition lower_char :: "char \<Rightarrow> char" where
  "lower_char c =
     (let n = (of_char c :: nat) in if 65 \<le> n \<and> n \<le> 90 then char_of (n + 32) else c)"

definition lower :: "string \<Rightarrow> string" where
  "lower s = map lower_char s"

text \<open>The Python test \<open>kw in s\<close> on two strings.\<close>

definition contains :: "string \<Rightarrow> string \<Rightarrow> bool" where
  "contains s kw = sublist kw s"

text \<open>\<open>any(kw in s for kw in kws)\<close>.\<close>

definition any_in :: "string list \<Rightarrow> string \<Rightarrow> bool" where
  "any_in kws s = list_ex (\<lambda>kw. contains s kw) kws"


section \<open>Intent classifier (\<open>chat.py\<close>, \<open>_detect_context_type\<close>)\<close>

definition idea_keywords :: "string list" where
  "idea_keywords =
     [''idea'', ''project'', ''validate'', ''original'', ''similar'', ''unique'', ''concept'']"

definition progress_keywords :: "string list" where
  "progress_keywords =
     [''progress'', ''status'', ''commit'', ''github'', ''development'', ''team'',
      ''accomplished'']"

definition documentation_keywords :: "string list" where
  "documentation_keywords =
     [''how to'', ''documentation'', ''rules'', ''guidelines'', ''google cloud'',
      ''elastic'', ''vertex'']"

definition detect_context_type :: "string \<Rightarrow> string" where
  "detect_context_type message =
     (let message_lower = lower message in
      if any_in idea_keywords message_lower then ''idea_validation''
      else if any_in progress_keywords message_lower then ''progress''
      else if any_in documentation_keywords message_lower then ''documentation''
      else ''general'')"

text \<open>
  The specification's notion of a message containing a keyword of a category: some
  stretch of the message reads, letter case aside, as one of the keywords.
\<close>

definition mentions :: "string \<Rightarrow> string list \<Rightarrow> bool" where
  "mentions m kws = (\<exists>kw \<in> set kws. \<exists>pre w post. m = pre @ w @ post \<and> lower w = kw)"


section \<open>Python library behaviour taken as given\<close>

datatype exn =
    Exception string
  | KeyError string
  | TypeError
  | AttributeError
  | IndexError
  | HTTPException nat string

text \<open>
  A decoded JSON value (\<open>json.loads\<close>), also used for the dictionaries the services pass
  around. An object is the list of its items in insertion order, with distinct keys.
\<close>

datatype json =
    JNull
  | JBool bool
  | JInt int
  | JFloat real
  | JStr string
  | JArr "json list"
  | JObj "(string \<times> json) list"

text \<open>
  What the program takes from the interpreter and the \<open>random\<close> module: the built-in
  \<open>hash\<close> on text, \<open>random.seed\<close>, \<open>random.uniform\<close> and \<open>random.randint\<close>. The
  generator is the module-level one, whose state \<open>'g\<close> every caller in the process
  shares. Floating-point numbers are modelled as reals.
\<close>

record 'g runtime =
  str_hash :: "string \<Rightarrow> int"
  rng_seed :: "int \<Rightarrow> 'g"
  rng_uniform :: "real \<Rightarrow> real \<Rightarrow> 'g \<Rightarrow> real \<times> 'g"
  rng_randint :: "int \<Rightarrow> int \<Rightarrow> 'g \<Rightarrow> int \<times> 'g"

text \<open>\<open>s.count(sub)\<close>: the number of non-overlapping occurrences, scanning from the left.\<close>

function count_sub :: "string \<Rightarrow> string \<Rightarrow> nat" where
  "count_sub sub s =
     (if sub = [] then length s + 1
      else if length s < length sub then 0
      else if prefix sub s then 1 + count_sub sub (drop (length sub) s)
      else count_sub sub (tl s))"
  by pat_completeness auto
termination
  by (relation "measure (\<lambda>(sub, s). length s)") (auto simp: neq_Nil_conv)

text \<open>\<open>str(n)\<close> for a non-negative integer.\<close>

definition digit_char :: "nat \<Rightarrow> char" where
  "digit_char d = char_of (48 + d)"

function show_nat :: "nat \<Rightarrow> string" where
  "show_nat n = (if n < 10 then [digit_char n] else show_nat (n div 10) @ [digit_char (n mod 10)])"
  by pat_completeness auto
termination
  by (relation "measure id") auto


section \<open>Resilient generation facade (\<open>smart_vertex_service.py\<close>, class \<open>VertexService\<close>)\<close>

record gen_request =
  prompt :: string
  gen_context :: "string option"
  conversation_history :: "(string \<times> string) list option"
  max_tokens :: int
  temperature :: real

text \<open>
  The real Vertex AI service object: its state is \<open>'r\<close>, and each of its methods either
  raises or returns, and may change that state.
\<close>

record 'r real_api =
  real_health_check :: "'r \<Rightarrow> (exn + bool) \<times> 'r"
  real_generate_embeddings :: "string list \<Rightarrow> 'r \<Rightarrow> (exn + real list list) \<times> 'r"
  real_generate_single_embedding :: "string \<Rightarrow> 'r \<Rightarrow> (exn + real list) \<times> 'r"
  real_generate_response :: "gen_request \<Rightarrow> 'r \<Rightarrow> (exn + string) \<times> 'r"
  real_generate_idea_validation_response ::
    "string \<Rightarrow> json list \<Rightarrow> 'r \<Rightarrow> (exn + string) \<times> 'r"
  real_generate_progress_summary :: "json list \<Rightarrow> 'r \<Rightarrow> (exn + string) \<times> 'r"
  real_build_comprehensive_prompt ::
    "string \<Rightarrow> string \<Rightarrow> json list option \<Rightarrow> (string \<times> string) list option \<Rightarrow> 'r
       \<Rightarrow> (exn + string) \<times> 'r"

text \<open>
  The fields of the facade object, together with the state of the process-wide random
  generator that its fallback paths draw from.
\<close>

record ('r, 'g) vertex_service =
  use_real_vertex :: bool
  real_service :: "'r option"
  fallback_active :: bool
  embedding_dim :: nat
  random_state :: 'g

text \<open>\<open>__init__\<close>: the argument is the outcome of constructing the real service.\<close>

definition vertex_init :: "exn + 'r \<Rightarrow> 'g \<Rightarrow> ('r, 'g) vertex_service" where
  "vertex_init constructed g =
     (case constructed of
        Inr r \<Rightarrow> \<lparr>use_real_vertex = True, real_service = Some r, fallback_active = False,
                  embedding_dim = 768, random_state = g\<rparr>
      | Inl e \<Rightarrow> \<lparr>use_real_vertex = False, real_service = None, fallback_active = False,
                  embedding_dim = 768, random_state = g\<rparr>)"

definition health_check ::
  "'r real_api \<Rightarrow> ('r, 'g) vertex_service \<Rightarrow> bool \<times> ('r, 'g) vertex_service" where
  "health_check api s =
     (case real_service s of
        Some r \<Rightarrow>
          (case real_health_check api r of
             (Inr result, r') \<Rightarrow>
               if result then (True, s\<lparr>real_service := Some r', fallback_active := False\<rparr>)
               else (True, s\<lparr>real_service := Some r', fallback_active := True\<rparr>)
           | (Inl e, r') \<Rightarrow> (True, s\<lparr>real_service := Some r', fallback_active := True\<rparr>))
      | None \<Rightarrow> (True, s\<lparr>fallback_active := True\<rparr>))"

text \<open>\<open>[random.uniform(-1, 1) for _ in range(n)]\<close>.\<close>

fun draw_uniform :: "'g runtime \<Rightarrow> nat \<Rightarrow> 'g \<Rightarrow> real list \<times> 'g" where
  "draw_uniform rt 0 g = ([], g)"
| "draw_uniform rt (Suc n) g =
     (let (x, g1) = rng_uniform rt (- 1) 1 g;
          (xs, g2) = draw_uniform rt n g1
      in (x # xs, g2))"

text \<open>The fallback loop of \<open>generate_embeddings\<close>.\<close>

fun fallback_embeddings :: "'g runtime \<Rightarrow> nat \<Rightarrow> string list \<Rightarrow> 'g \<Rightarrow> real list list \<times> 'g" where
  "fallback_embeddings rt edim [] g = ([], g)"
| "fallback_embeddings rt edim (text # texts) g =
     (let seed = str_hash rt text mod 10000;
          g0 = rng_seed rt seed;
          (embedding, g1) = draw_uniform rt edim g0;
          (embeddings, g2) = fallback_embeddings rt edim texts g1
      in (embedding # embeddings, g2))"

definition generate_embeddings ::
  "'r real_api \<Rightarrow> 'g runtime \<Rightarrow> string list \<Rightarrow> ('r, 'g) vertex_service
     \<Rightarrow> real list list \<times> ('r, 'g) vertex_service" where
  "generate_embeddings api rt texts s =
     (let (returned, s1) =
            (case real_service s of
               Some r \<Rightarrow>
                 if \<not> fallback_active s then
                   (case real_generate_embeddings api texts r of
                      (Inr embeddings, r') \<Rightarrow>
                        if embeddings \<noteq> [] \<and> length embeddings > 0
                        then (Some embeddings, s\<lparr>real_service := Some r'\<rparr>)
                        else (None, s\<lparr>real_service := Some r'\<rparr>)
                    | (Inl e, r') \<Rightarrow>
                        (None, s\<lparr>real_service := Some r', fallback_active := True\<rparr>))
                 else (None, s)
             | None \<Rightarrow> (None, s))
      in case returned of
           Some embeddings \<Rightarrow> (embeddings, s1)
         | None \<Rightarrow>
             (let (embeddings, g) =
                    fallback_embeddings rt (embedding_dim s1) texts (random_state s1)
              in (embeddings, s1\<lparr>random_state := g\<rparr>)))"

definition generate_single_embedding ::
  "'r real_api \<Rightarrow> 'g runtime \<Rightarrow> string \<Rightarrow> ('r, 'g) vertex_service
     \<Rightarrow> (exn + real list) \<times> ('r, 'g) vertex_service" where
  "generate_single_embedding api rt text s =
     (let (returned, s1) =
            (case real_service s of
               Some r \<Rightarrow>
                 if \<not> fallback_active s then
                   (case real_generate_single_embedding api text r of
                      (Inr embedding, r') \<Rightarrow>
                        if embedding \<noteq> [] \<and> length embedding > 0
                        then (Some embedding, s\<lparr>real_service := Some r'\<rparr>)
                        else (None, s\<lparr>real_service := Some r'\<rparr>)
                    | (Inl e, r') \<Rightarrow>
                        (None, s\<lparr>real_service := Some r', fallback_active := True\<rparr>))
                 else (None, s)
             | None \<Rightarrow> (None, s))
      in case returned of
           Some embedding \<Rightarrow> (Inr embedding, s1)
         | None \<Rightarrow>
             (let (embeddings, s2) = generate_embeddings api rt [text] s1
              in case embeddings of
                   [] \<Rightarrow> (Inl IndexError, s2)
                 | e # _ \<Rightarrow> (Inr e, s2)))"

text \<open>
  The canned replies of the fallback backend. Each is a fixed text around the values
  listed here; the fixed text is not reproduced, and \<open>render\<close> (a parameter of the
  functions below) stands for the template that produces the reply's text.
\<close>

datatype fallback_reply =
    IdeaValidationReply int string nat
  | ElasticDocumentationReply
  | DocumentationReply string
  | ProgressReply
  | PresentationReply
  | GeneralReply string

definition fallback_idea_validation ::
  "'g runtime \<Rightarrow> string \<Rightarrow> string option \<Rightarrow> 'g \<Rightarrow> fallback_reply \<times> 'g" where
  "fallback_idea_validation rt p ctx g =
     (let idea_snippet = (if length p > 100 then take 100 p else p);
          num_similar =
            (case ctx of
               Some c \<Rightarrow>
                 if c \<noteq> [] \<and> contains (lower c) ''similar''
                 then (if contains c ''title'' then count_sub ''title'' c else 3)
                 else 0
             | None \<Rightarrow> 0);
          (originality_score, g1) = rng_randint rt 65 90 g
      in (IdeaValidationReply originality_score idea_snippet num_similar, g1))"

definition fallback_documentation :: "string \<Rightarrow> string option \<Rightarrow> fallback_reply" where
  "fallback_documentation p ctx =
     (if contains (lower p) ''elastic'' \<or> contains (lower p) ''search''
      then ElasticDocumentationReply
      else DocumentationReply (take 100 p))"

definition fallback_progress :: "string \<Rightarrow> string option \<Rightarrow> fallback_reply" where
  "fallback_progress p ctx = ProgressReply"

definition fallback_presentation :: "string \<Rightarrow> string option \<Rightarrow> fallback_reply" where
  "fallback_presentation p ctx = PresentationReply"

definition fallback_general :: "string \<Rightarrow> string option \<Rightarrow> fallback_reply" where
  "fallback_general p ctx = GeneralReply (take 150 p)"

definition generate_fallback_response ::
  "'g runtime \<Rightarrow> string \<Rightarrow> string option \<Rightarrow> 'g \<Rightarrow> fallback_reply \<times> 'g" where
  "generate_fallback_response rt p ctx g =
     (let prompt_lower = lower p in
      if any_in [''idea'', ''validate'', ''project'', ''build'', ''original''] prompt_lower
      then fallback_idea_validation rt p ctx g
      else if any_in [''how'', ''what'', ''elastic'', ''search'', ''implement'', ''vertex'']
                prompt_lower
      then (fallback_documentation p ctx, g)
      else if any_in [''progress'', ''commit'', ''github'', ''repository''] prompt_lower
      then (fallback_progress p ctx, g)
      else if any_in [''pitch'', ''presentation'', ''demo'', ''slide''] prompt_lower
      then (fallback_presentation p ctx, g)
      else (fallback_general p ctx, g))"

definition generate_response ::
  "'r real_api \<Rightarrow> 'g runtime \<Rightarrow> (fallback_reply \<Rightarrow> string) \<Rightarrow> gen_request
     \<Rightarrow> ('r, 'g) vertex_service \<Rightarrow> string \<times> ('r, 'g) vertex_service" where
  "generate_response api rt render req s =
     (let (returned, s1) =
            (case real_service s of
               Some r \<Rightarrow>
                 if \<not> fallback_active s then
                   (case real_generate_response api req r of
                      (Inr response, r') \<Rightarrow>
                        if response \<noteq> [] \<and> length response > 10
                        then (Some response, s\<lparr>real_service := Some r'\<rparr>)
                        else (None, s\<lparr>real_service := Some r'\<rparr>)
                    | (Inl e, r') \<Rightarrow>
                        (None, s\<lparr>real_service := Some r', fallback_active := True\<rparr>))
                 else (None, s)
             | None \<Rightarrow> (None, s))
      in case returned of
           Some response \<Rightarrow> (response, s1)
         | None \<Rightarrow>
             (let (reply, g) =
                    generate_fallback_response rt (prompt req) (gen_context req) (random_state s1)
              in (render reply, s1\<lparr>random_state := g\<rparr>)))"

definition generate_idea_validation_response ::
  "'r real_api \<Rightarrow> 'g runtime \<Rightarrow> (fallback_reply \<Rightarrow> string) \<Rightarrow> string \<Rightarrow> json list
     \<Rightarrow> ('r, 'g) vertex_service \<Rightarrow> string \<times> ('r, 'g) vertex_service" where
  "generate_idea_validation_response api rt render idea_description similar_projects s =
     (let (returned, s1) =
            (case real_service s of
               Some r \<Rightarrow>
                 if \<not> fallback_active s then
                   (case real_generate_idea_validation_response api idea_description
                           similar_projects r of
                      (Inr response, r') \<Rightarrow> (Some response, s\<lparr>real_service := Some r'\<rparr>)
                    | (Inl e, r') \<Rightarrow>
                        (None, s\<lparr>real_service := Some r', fallback_active := True\<rparr>))
                 else (None, s)
             | None \<Rightarrow> (None, s))
      in case returned of
           Some response \<Rightarrow> (response, s1)
         | None \<Rightarrow>
             (let ctx = ''Found '' @ show_nat (length similar_projects) @ '' similar projects'';
                  (reply, g) =
                    fallback_idea_validation rt idea_description (Some ctx) (random_state s1)
              in (render reply, s1\<lparr>random_state := g\<rparr>)))"

definition generate_progress_summary ::
  "'r real_api \<Rightarrow> (fallback_reply \<Rightarrow> string) \<Rightarrow> json list
     \<Rightarrow> ('r, 'g) vertex_service \<Rightarrow> string \<times> ('r, 'g) vertex_service" where
  "generate_progress_summary api render github_activity s =
     (let (returned, s1) =
            (case real_service s of
               Some r \<Rightarrow>
                 if \<not> fallback_active s then
                   (case real_generate_progress_summary api github_activity r of
                      (Inr response, r') \<Rightarrow> (Some response, s\<lparr>real_service := Some r'\<rparr>)
                    | (Inl e, r') \<Rightarrow>
                        (None, s\<lparr>real_service := Some r', fallback_active := True\<rparr>))
                 else (None, s)
             | None \<Rightarrow> (None, s))
      in case returned of
           Some response \<Rightarrow> (response, s1)
         | None \<Rightarrow>
             (let ctx = show_nat (length github_activity) @ '' activities''
              in (render (fallback_progress ''Generate progress summary'' (Some ctx)), s1)))"

definition build_comprehensive_prompt ::
  "'r real_api \<Rightarrow> string \<Rightarrow> string \<Rightarrow> json list option \<Rightarrow> (string \<times> string) list option
     \<Rightarrow> ('r, 'g) vertex_service \<Rightarrow> string \<times> ('r, 'g) vertex_service" where
  "build_comprehensive_prompt api user_query context_type retrieved_context history s =
     (case real_service s of
        Some r \<Rightarrow>
          if \<not> fallback_active s then
            (case real_build_comprehensive_prompt api user_query context_type
                    retrieved_context history r of
               (Inr built, r') \<Rightarrow> (built, s\<lparr>real_service := Some r'\<rparr>)
             | (Inl e, r') \<Rightarrow> (user_query, s\<lparr>real_service := Some r'\<rparr>))
          else (user_query, s)
      | None \<Rightarrow> (user_query, s))"

text \<open>
  A client of the facade issues a sequence of calls. \<open>facade_step\<close> performs one of them
  and keeps the facade; \<open>facade_run\<close> performs a sequence.
\<close>

datatype facade_call =
    GenerateResponse gen_request
  | GenerateEmbeddings "string list"
  | GenerateSingleEmbedding string
  | GenerateIdeaValidation string "json list"
  | GenerateProgressSummary "json list"
  | BuildPrompt string string "json list option" "(string \<times> string) list option"
  | HealthCheck

fun facade_step ::
  "'r real_api \<Rightarrow> 'g runtime \<Rightarrow> (fallback_reply \<Rightarrow> string) \<Rightarrow> facade_call
     \<Rightarrow> ('r, 'g) vertex_service \<Rightarrow> ('r, 'g) vertex_service" where
  "facade_step api rt render (GenerateResponse req) s = snd (generate_response api rt render req s)"
| "facade_step api rt render (GenerateEmbeddings texts) s = snd (generate_embeddings api rt texts s)"
| "facade_step api rt render (GenerateSingleEmbedding text) s =
     snd (generate_single_embedding api rt text s)"
| "facade_step api rt render (GenerateIdeaValidation d ps) s =
     snd (generate_idea_validation_response api rt render d ps s)"
| "facade_step api rt render (GenerateProgressSummary a) s =
     snd (generate_progress_summary api render a s)"
| "facade_step api rt render (BuildPrompt q t c h) s =
     snd (build_comprehensive_prompt api q t c h s)"
| "facade_step api rt render HealthCheck s = snd (health_check api s)"

fun facade_run ::
  "'r real_api \<Rightarrow> 'g runtime \<Rightarrow> (fallback_reply \<Rightarrow> string) \<Rightarrow> facade_call list
     \<Rightarrow> ('r, 'g) vertex_service \<Rightarrow> ('r, 'g) vertex_service" where
  "facade_run api rt render [] s = s"
| "facade_run api rt render (c # cs) s = facade_run api rt render cs (facade_step api rt render c s)"

text \<open>
  A real backend for concrete runs: its state counts the calls made to it, the health
  probe answers \<open>probe\<close>, and every generating method answers with the given outcome.
\<close>

definition spy_api ::
  "bool \<Rightarrow> exn + string \<Rightarrow> exn + real list list \<Rightarrow> exn + real list \<Rightarrow> nat real_api" where
  "spy_api probe text vectors vector =
     \<lparr>real_health_check = (\<lambda>n. (Inr probe, Suc n)),
      real_generate_embeddings = (\<lambda>texts n. (vectors, Suc n)),
      real_generate_single_embedding = (\<lambda>t n. (vector, Suc n)),
      real_generate_response = (\<lambda>req n. (text, Suc n)),
      real_generate_idea_validation_response = (\<lambda>d ps n. (text, Suc n)),
      real_generate_progress_summary = (\<lambda>a n. (text, Suc n)),
      real_build_comprehensive_prompt = (\<lambda>q t c h n. (text, Suc n))\<rparr>"

text \<open>
  A small generator for concrete runs: its state is a counter, the hash of a text is
  its length, and each draw returns a value computed from the counter.
\<close>

definition toy_runtime :: "int runtime" where
  "toy_runtime =
     \<lparr>str_hash = (\<lambda>s. int (length s)),
      rng_seed = (\<lambda>n. n),
      rng_uniform = (\<lambda>a b g. (a + (b - a) * (real_of_int (g mod 4) / 4), g + 1)),
      rng_randint = (\<lambda>a b g. (a + g mod (b - a + 1), g + 1))\<rparr>"

text \<open>
  The same interpreter under a given salt of the text hash: Python salts the hash of a
  text anew in every process unless the salt is fixed from outside, so two runs of the
  program are two such runtimes.
\<close>

definition salted_runtime :: "int \<Rightarrow> int runtime" where
  "salted_runtime salt = toy_runtime\<lparr>str_hash := (\<lambda>s. int (length s) + salt)\<rparr>"

definition toy_render :: "fallback_reply \<Rightarrow> string" where
  "toy_render reply =
     (case reply of
        IdeaValidationReply score snippet n \<Rightarrow> ''idea: '' @ snippet
      | ElasticDocumentationReply \<Rightarrow> ''elastic documentation''
      | DocumentationReply snippet \<Rightarrow> ''documentation: '' @ snippet
      | ProgressReply \<Rightarrow> ''progress''
      | PresentationReply \<Rightarrow> ''presentation''
      | GeneralReply snippet \<Rightarrow> ''general: '' @ snippet)"


text \<open>The calls that generate text, vectors or prompts: every call but the health check.\<close>

fun generation_call :: "facade_call \<Rightarrow> bool" where
  "generation_call HealthCheck = False"
| "generation_call _ = True"

text \<open>A request and a facade whose health probe has just failed, for concrete runs.\<close>

definition demo_request :: gen_request where
  "demo_request =
     \<lparr>prompt = ''hello there'', gen_context = None, conversation_history = None,
      max_tokens = 2048, temperature = 0.7\<rparr>"

definition degraded_facade :: "(nat, int) vertex_service" where
  "degraded_facade =
     snd (health_check (spy_api False (Inr ''a real answer, long enough'') (Inr [[1]]) (Inr [1]))
            (vertex_init (Inr 0) 0))"


section \<open>Python operations on decoded values\<close>

definition bind_exn :: "exn + 'a \<Rightarrow> ('a \<Rightarrow> exn + 'b) \<Rightarrow> exn + 'b" where
  "bind_exn x f = (case x of Inl e \<Rightarrow> Inl e | Inr v \<Rightarrow> f v)"

text \<open>\<open>x[key]\<close> with a text key: only a dictionary that has the key answers.\<close>

definition py_getitem :: "json \<Rightarrow> string \<Rightarrow> exn + json" where
  "py_getitem x key =
     (case x of
        JObj items \<Rightarrow> (case map_of items key of Some v \<Rightarrow> Inr v | None \<Rightarrow> Inl (KeyError key))
      | _ \<Rightarrow> Inl TypeError)"

text \<open>\<open>x.get(key, default)\<close>: a method of dictionaries only.\<close>

definition py_get :: "json \<Rightarrow> string \<Rightarrow> json \<Rightarrow> exn + json" where
  "py_get x key dflt =
     (case x of
        JObj items \<Rightarrow> (case map_of items key of Some v \<Rightarrow> Inr v | None \<Rightarrow> Inr dflt)
      | _ \<Rightarrow> Inl AttributeError)"

text \<open>\<open>key in x\<close> with a text key.\<close>

definition py_in :: "string \<Rightarrow> json \<Rightarrow> exn + bool" where
  "py_in key x =
     (case x of
        JObj items \<Rightarrow> Inr (map_of items key \<noteq> None)
      | JArr xs \<Rightarrow> Inr (List.member xs (JStr key))
      | JStr t \<Rightarrow> Inr (contains t key)
      | _ \<Rightarrow> Inl TypeError)"

definition py_len :: "json \<Rightarrow> exn + nat" where
  "py_len x =
     (case x of
        JObj items \<Rightarrow> Inr (length items)
      | JArr xs \<Rightarrow> Inr (length xs)
      | JStr t \<Rightarrow> Inr (length t)
      | _ \<Rightarrow> Inl TypeError)"

text \<open>\<open>for v in x\<close>: the elements of a list, the keys of a dictionary, the characters of a text.\<close>

definition py_iter :: "json \<Rightarrow> exn + json list" where
  "py_iter x =
     (case x of
        JArr xs \<Rightarrow> Inr xs
      | JObj items \<Rightarrow> Inr (map (\<lambda>(k, v). JStr k) items)
      | JStr t \<Rightarrow> Inr (map (\<lambda>c. JStr [c]) t)
      | _ \<Rightarrow> Inl TypeError)"

text \<open>\<open>x[:n]\<close> for a non-negative constant \<open>n\<close>: texts and lists can be sliced.\<close>

definition py_slice :: "json \<Rightarrow> nat \<Rightarrow> exn + json" where
  "py_slice x n =
     (case x of
        JStr t \<Rightarrow> Inr (JStr (take n t))
      | JArr xs \<Rightarrow> Inr (JArr (take n xs))
      | _ \<Rightarrow> Inl TypeError)"

text \<open>\<open>x + "..."\<close>: only a text can be extended by a text.\<close>

definition py_add_str :: "json \<Rightarrow> string \<Rightarrow> exn + json" where
  "py_add_str x t = (case x of JStr u \<Rightarrow> Inr (JStr (u @ t)) | _ \<Rightarrow> Inl TypeError)"

text \<open>Applying a step that may raise to each element in turn; the first exception ends the loop.\<close>

fun map_exn :: "('a \<Rightarrow> exn + 'b) \<Rightarrow> 'a list \<Rightarrow> exn + 'b list" where
  "map_exn f [] = Inr []"
| "map_exn f (x # xs) =
     (case f x of
        Inl e \<Rightarrow> Inl e
      | Inr y \<Rightarrow> (case map_exn f xs of Inl e \<Rightarrow> Inl e | Inr ys \<Rightarrow> Inr (y # ys)))"

text \<open>\<open>xs[:n]\<close> for an integer \<open>n\<close> that may be negative: then the last \<open>-n\<close> elements are dropped.\<close>

definition py_prefix :: "int \<Rightarrow> 'a list \<Rightarrow> 'a list" where
  "py_prefix n xs = (if 0 \<le> n then take (nat n) xs else take (length xs - nat (- n)) xs)"


section \<open>Search service (\<open>elastic_service.py\<close>, class \<open>ElasticService\<close>)\<close>

text \<open>The request bodies that \<open>hybrid_search\<close> sends, clause by clause.\<close>

datatype es_query =
    MultiMatch string "string list" string "real option"
  | BoolShould "es_query list"
  | MatchAll

record knn_clause =
  knn_field :: string
  knn_query_vector :: "real list"
  knn_k :: int
  knn_num_candidates :: int
  knn_boost :: "real option"

record search_body =
  body_size :: int
  body_query :: "es_query option"
  body_knn :: "knn_clause option"
  body_source_excludes :: "string list"

text \<open>
  \<open>self.client.search(index=..., body=...)\<close>: the client has a state \<open>'c\<close>; a call raises or
  returns the decoded response, and may change the state.
\<close>

type_synonym 'c es_search = "'c \<Rightarrow> string \<Rightarrow> search_body \<Rightarrow> (exn + json) \<times> 'c"

record search_result =
  res_hits :: json
  res_total :: json
  res_max_score :: json

definition default_text_fields :: "string list" where
  "default_text_fields = [''title'', ''description'', ''content'']"

text \<open>\<open>if text_fields is None: text_fields = [...]\<close>.\<close>

definition text_fields_or_default :: "string list option \<Rightarrow> string list" where
  "text_fields_or_default text_fields_arg =
     (case text_fields_arg of None \<Rightarrow> default_text_fields | Some fs \<Rightarrow> fs)"

definition truthy_vector :: "real list option \<Rightarrow> bool" where
  "truthy_vector v = (case v of None \<Rightarrow> False | Some xs \<Rightarrow> xs \<noteq> [])"

text \<open>The \<open>search_body\<close> built in the \<open>try\<close> block of \<open>hybrid_search\<close>.\<close>

definition primary_body ::
  "string \<Rightarrow> string \<Rightarrow> string list \<Rightarrow> int \<Rightarrow> real list option \<Rightarrow> search_body" where
  "primary_body query vector_field text_fields size' vector_query =
     (if query \<noteq> [] \<and> truthy_vector vector_query then
        \<lparr>body_size = size',
         body_query = Some (BoolShould [MultiMatch query text_fields ''best_fields'' (Some 1)]),
         body_knn = Some \<lparr>knn_field = vector_field, knn_query_vector = the vector_query,
                          knn_k = size', knn_num_candidates = size' * 10, knn_boost = Some 1\<rparr>,
         body_source_excludes = [vector_field]\<rparr>
      else if truthy_vector vector_query then
        \<lparr>body_size = size',
         body_query = None,
         body_knn = Some \<lparr>knn_field = vector_field, knn_query_vector = the vector_query,
                          knn_k = size', knn_num_candidates = size' * 10, knn_boost = None\<rparr>,
         body_source_excludes = [vector_field]\<rparr>
      else if query \<noteq> [] then
        \<lparr>body_size = size',
         body_query = Some (MultiMatch query text_fields ''best_fields'' None),
         body_knn = None,
         body_source_excludes = [vector_field]\<rparr>
      else
        \<lparr>body_size = size', body_query = Some MatchAll, body_knn = None,
         body_source_excludes = [vector_field]\<rparr>)"

text \<open>The \<open>fallback_body\<close> of the \<open>except\<close> block: a lexical multi-field query, nothing else.\<close>

definition fallback_body :: "string \<Rightarrow> string \<Rightarrow> string list \<Rightarrow> int \<Rightarrow> search_body" where
  "fallback_body query vector_field text_fields size' =
     \<lparr>body_size = size',
      body_query = Some (MultiMatch query text_fields ''best_fields'' None),
      body_knn = None,
      body_source_excludes = [vector_field]\<rparr>"

text \<open>The dictionary returned from the \<open>try\<close> block, built from the response.\<close>

definition shape_primary :: "json \<Rightarrow> exn + search_result" where
  "shape_primary response =
     bind_exn (py_getitem response ''hits'') (\<lambda>h.
     bind_exn (py_getitem h ''hits'') (\<lambda>hh.
     bind_exn (py_in ''total'' h) (\<lambda>has_total.
     bind_exn (if has_total
               then bind_exn (py_getitem h ''total'') (\<lambda>t. py_getitem t ''value'')
               else bind_exn (py_len hh) (\<lambda>n. Inr (JInt (int n)))) (\<lambda>tot.
     bind_exn (py_getitem h ''max_score'') (\<lambda>m.
     Inr \<lparr>res_hits = hh, res_total = tot, res_max_score = m\<rparr>)))))"

text \<open>The dictionary returned from the inner \<open>try\<close> block.\<close>

definition shape_fallback :: "json \<Rightarrow> exn + search_result" where
  "shape_fallback response =
     bind_exn (py_getitem response ''hits'') (\<lambda>h.
     bind_exn (py_getitem h ''hits'') (\<lambda>hh.
     bind_exn (bind_exn (py_getitem h ''total'') (\<lambda>t. py_getitem t ''value'')) (\<lambda>tot.
     bind_exn (py_getitem h ''max_score'') (\<lambda>m.
     Inr \<lparr>res_hits = hh, res_total = tot, res_max_score = m\<rparr>))))"

definition empty_result :: search_result where
  "empty_result = \<lparr>res_hits = JArr [], res_total = JInt 0, res_max_score = JInt 0\<rparr>"

text \<open>The \<open>try\<close> block of \<open>hybrid_search\<close>: it raises or returns the shaped result.\<close>

definition hybrid_search_try ::
  "'c es_search \<Rightarrow> string \<Rightarrow> string \<Rightarrow> string \<Rightarrow> string list \<Rightarrow> int \<Rightarrow> real list option
     \<Rightarrow> 'c \<Rightarrow> (exn + search_result) \<times> 'c" where
  "hybrid_search_try search query index vector_field text_fields size' vector_query c =
     (case search c index (primary_body query vector_field text_fields size' vector_query) of
        (Inl e, c1) \<Rightarrow> (Inl e, c1)
      | (Inr response, c1) \<Rightarrow> (shape_primary response, c1))"

definition hybrid_search ::
  "'c es_search \<Rightarrow> string \<Rightarrow> string \<Rightarrow> string \<Rightarrow> string list option \<Rightarrow> int
     \<Rightarrow> real list option \<Rightarrow> 'c \<Rightarrow> search_result \<times> 'c" where
  "hybrid_search search query index vector_field text_fields_arg size' vector_query c =
     (let text_fields = text_fields_or_default text_fields_arg
      in case hybrid_search_try search query index vector_field text_fields size' vector_query c of
           (Inr result, c1) \<Rightarrow> (result, c1)
         | (Inl e, c1) \<Rightarrow>
             (case search c1 index (fallback_body query vector_field text_fields size') of
                (Inr response, c2) \<Rightarrow>
                  (case shape_fallback response of
                     Inr result \<Rightarrow> (result, c2)
                   | Inl fallback_error \<Rightarrow> (empty_result, c2))
              | (Inl fallback_error, c2) \<Rightarrow> (empty_result, c2)))"

definition DEVPOST_INDEX :: string where
  "DEVPOST_INDEX = ''devpost_projects''"

definition DOCUMENTATION_INDEX :: string where
  "DOCUMENTATION_INDEX = ''hackathon_docs''"

definition GITHUB_INDEX :: string where
  "GITHUB_INDEX = ''github_activity''"

text \<open>The dictionaries that \<open>search_devpost_projects\<close> and \<open>search_documentation\<close> build per hit.\<close>

record project =
  project_title :: json
  project_description :: json
  project_url :: json
  project_technologies :: json
  project_category :: json
  project_year :: json
  project_score :: json

record doc =
  doc_title :: json
  doc_content :: json
  doc_url :: json
  doc_section :: json
  doc_source :: json
  doc_score :: json

text \<open>The text fields that the two searches pass to \<open>hybrid_search\<close>.\<close>

definition devpost_fields :: "string list" where
  "devpost_fields = [''title'', ''description'', ''technologies'', ''category'']"

definition docs_fields :: "string list" where
  "docs_fields = [''title'', ''content'', ''section'', ''tags'']"

definition project_of_hit :: "json \<Rightarrow> exn + project" where
  "project_of_hit hit =
     bind_exn (py_getitem hit ''_source'') (\<lambda>src.
     bind_exn (py_get src ''title'' (JStr [])) (\<lambda>t.
     bind_exn (py_get src ''description'' (JStr [])) (\<lambda>d.
     bind_exn (py_get src ''url'' (JStr [])) (\<lambda>u.
     bind_exn (py_get src ''technologies'' (JArr [])) (\<lambda>tech.
     bind_exn (py_get src ''category'' (JStr [])) (\<lambda>cat.
     bind_exn (py_get src ''year'' (JStr [])) (\<lambda>y.
     bind_exn (py_getitem hit ''_score'') (\<lambda>sc.
     Inr \<lparr>project_title = t, project_description = d, project_url = u,
          project_technologies = tech, project_category = cat, project_year = y,
          project_score = sc\<rparr>))))))))"

definition doc_of_hit :: "json \<Rightarrow> exn + doc" where
  "doc_of_hit hit =
     bind_exn (py_getitem hit ''_source'') (\<lambda>src.
     bind_exn (py_get src ''title'' (JStr [])) (\<lambda>t.
     bind_exn (py_get src ''content'' (JStr [])) (\<lambda>c.
     bind_exn (py_get src ''url'' (JStr [])) (\<lambda>u.
     bind_exn (py_get src ''section'' (JStr [])) (\<lambda>sec.
     bind_exn (py_get src ''source'' (JStr [])) (\<lambda>so.
     bind_exn (py_getitem hit ''_score'') (\<lambda>sc.
     Inr \<lparr>doc_title = t, doc_content = c, doc_url = u, doc_section = sec, doc_source = so,
          doc_score = sc\<rparr>)))))))"

definition search_devpost_projects ::
  "'c es_search \<Rightarrow> string \<Rightarrow> real list option \<Rightarrow> int \<Rightarrow> 'c \<Rightarrow> project list \<times> 'c" where
  "search_devpost_projects search query vector_query size' c =
     (let (results, c1) =
            hybrid_search search query DEVPOST_INDEX ''embedding''
              (Some devpost_fields)
              size' vector_query c
      in case bind_exn (py_iter (res_hits results)) (map_exn project_of_hit) of
           Inr projects \<Rightarrow> (projects, c1)
         | Inl e \<Rightarrow> ([], c1))"

definition search_documentation ::
  "'c es_search \<Rightarrow> string \<Rightarrow> real list option \<Rightarrow> int \<Rightarrow> 'c \<Rightarrow> doc list \<times> 'c" where
  "search_documentation search query vector_query size' c =
     (let (results, c1) =
            hybrid_search search query DOCUMENTATION_INDEX ''embedding''
              (Some docs_fields)
              size' vector_query c
      in case bind_exn (py_iter (res_hits results)) (map_exn doc_of_hit) of
           Inr docs \<Rightarrow> (docs, c1)
         | Inl e \<Rightarrow> ([], c1))"

text \<open>
  Search clients for concrete runs: the state is the list of the requests received. The
  first rejects every request that has a vector clause and answers a lexical request
  with one hit; the second rejects every request.
\<close>

definition one_hit_response :: json where
  "one_hit_response =
     JObj [(''hits'',
            JObj [(''total'', JObj [(''value'', JInt 1)]),
                  (''max_score'', JFloat 2),
                  (''hits'',
                   JArr [JObj [(''_score'', JFloat 2),
                               (''_source'',
                                JObj [(''title'', JStr ''Hybrid search''),
                                      (''content'', JStr ''Combine BM25 and kNN''),
                                      (''description'', JStr ''A search demo'')])]])])]"

definition lexical_only_client :: "(string \<times> search_body) list es_search" where
  "lexical_only_client seen index body =
     (if body_knn body \<noteq> None
      then (Inl (Exception ''knn is not available''), seen @ [(index, body)])
      else (Inr one_hit_response, seen @ [(index, body)]))"

definition failing_client :: "(string \<times> search_body) list es_search" where
  "failing_client seen index body = (Inl (Exception ''connection refused''), seen @ [(index, body)])"


text \<open>The shaped result of the one-hit response.\<close>

definition demo_hit_result :: search_result where
  "demo_hit_result =
     \<lparr>res_hits =
        JArr [JObj [(''_score'', JFloat 2),
                    (''_source'',
                     JObj [(''title'', JStr ''Hybrid search''),
                           (''content'', JStr ''Combine BM25 and kNN''),
                           (''description'', JStr ''A search demo'')])]],
      res_total = JInt 1, res_max_score = JFloat 2\<rparr>"


section \<open>Context aggregator (\<open>chat.py\<close>, \<open>_gather_context\<close>)\<close>

text \<open>
  What an f-string does with a value: a text is inserted as it is, any other value
  through \<open>str\<close>, and the format \<open>.2f\<close> raises on a value that is not a number. How Python
  prints values that are not texts is taken as given.
\<close>

record py_format =
  str_of :: "json \<Rightarrow> string"
  format_2f :: "json \<Rightarrow> exn + string"

definition py_str :: "py_format \<Rightarrow> json \<Rightarrow> string" where
  "py_str fmt x = (case x of JStr t \<Rightarrow> t | _ \<Rightarrow> str_of fmt x)"

fun join_with :: "string \<Rightarrow> string list \<Rightarrow> string" where
  "join_with sep [] = []"
| "join_with sep [t] = t"
| "join_with sep (t # u # ts) = t @ sep @ join_with sep (u # ts)"

text \<open>\<open>sep.join(x)\<close>: every element of \<open>x\<close> has to be a text.\<close>

definition py_join :: "string \<Rightarrow> json \<Rightarrow> exn + string" where
  "py_join sep x =
     bind_exn (py_iter x) (\<lambda>vs.
     bind_exn (map_exn (\<lambda>v. case v of JStr t \<Rightarrow> Inr t | _ \<Rightarrow> Inl TypeError) vs) (\<lambda>ts.
     Inr (join_with sep ts)))"

definition newline :: string where
  "newline = [CHR 0x0A]"

text \<open>The decorative marks that open the lines of a block, as the bytes found in the source.\<close>

definition mark_books :: string where
  "mark_books = [CHR 0xF0, CHR 0x9F, CHR 0x93, CHR 0x9A]"

definition mark_link :: string where
  "mark_link = [CHR 0xF0, CHR 0x9F, CHR 0x94, CHR 0x97]"

definition mark_rocket :: string where
  "mark_rocket = [CHR 0xF0, CHR 0x9F, CHR 0x9A, CHR 0x80]"

definition mark_memo :: string where
  "mark_memo = [CHR 0xF0, CHR 0x9F, CHR 0x93]"

definition mark_tools :: string where
  "mark_tools = [CHR 0xF0, CHR 0x9F, CHR 0x9B, CHR 0xA0, CHR 0xEF, CHR 0xB8]"

definition mark_chart :: string where
  "mark_chart = [CHR 0xF0, CHR 0x9F, CHR 0x93, CHR 0x8A]"

record context_data =
  formatted_context :: string
  sources :: "json list"
  context_type :: string

text \<open>
  \<open>github_service.get_repository_activity\<close>: the body of its \<open>try\<close> block (parsing the URL,
  the requests to the hosting service, sorting, the cut to 20 entries) is the parameter
  \<open>fetch\<close> on the state \<open>'h\<close> of the hosting client; the \<open>except\<close> block returns the empty list.
\<close>

type_synonym 'h activity_fetch = "'h \<Rightarrow> string \<Rightarrow> int \<Rightarrow> (exn + json list) \<times> 'h"

definition get_repository_activity ::
  "'h activity_fetch \<Rightarrow> string \<Rightarrow> int \<Rightarrow> 'h \<Rightarrow> json list \<times> 'h" where
  "get_repository_activity fetch repo_url days h =
     (case fetch h repo_url days of
        (Inr activity, h1) \<Rightarrow> (activity, h1)
      | (Inl e, h1) \<Rightarrow> ([], h1))"

text \<open>
  The loop over the documents. The lines of one document and its entry for \<open>sources\<close>
  may raise. The text of the block so far is local, the entries of \<open>sources\<close> are
  appended in place, so an exception leaves the entries appended so far.
\<close>

definition doc_lines :: "py_format \<Rightarrow> nat \<Rightarrow> doc \<Rightarrow> exn + string" where
  "doc_lines fmt i d =
     bind_exn (py_slice (doc_content d) 400) (\<lambda>c400.
     Inr (show_nat i @ ''. **'' @ py_str fmt (doc_title d) @ ''** (Source: ''
            @ py_str fmt (doc_source d) @ '')'' @ newline
          @ ''   '' @ py_str fmt c400 @ ''...'' @ newline
          @ ''   '' @ mark_link @ '' '' @ py_str fmt (doc_url d) @ newline @ newline))"

definition doc_source_entry :: "doc \<Rightarrow> exn + json" where
  "doc_source_entry d =
     bind_exn (bind_exn (py_slice (doc_content d) 300) (\<lambda>c. py_add_str c ''...'')) (\<lambda>excerpt.
     Inr (JObj [(''type'', JStr ''documentation''),
                (''title'', doc_title d),
                (''content'', excerpt),
                (''url'', doc_url d),
                (''source'', doc_source d),
                (''relevance_score'', doc_score d)]))"

fun docs_loop ::
  "py_format \<Rightarrow> nat \<Rightarrow> doc list \<Rightarrow> string \<Rightarrow> json list \<Rightarrow> (exn + string) \<times> json list" where
  "docs_loop fmt i [] doc_context srcs = (Inr doc_context, srcs)"
| "docs_loop fmt i (d # rest) doc_context srcs =
     (case doc_lines fmt i d of
        Inl e \<Rightarrow> (Inl e, srcs)
      | Inr lines \<Rightarrow>
          (case doc_source_entry d of
             Inl e \<Rightarrow> (Inl e, srcs)
           | Inr entry \<Rightarrow> docs_loop fmt (Suc i) rest (doc_context @ lines) (srcs @ [entry])))"

definition project_lines :: "py_format \<Rightarrow> nat \<Rightarrow> project \<Rightarrow> exn + string" where
  "project_lines fmt i p =
     bind_exn (py_slice (project_description p) 300) (\<lambda>d300.
     bind_exn (py_join '', '' (project_technologies p)) (\<lambda>tech.
     bind_exn (format_2f fmt (project_score p)) (\<lambda>relevance.
     Inr (show_nat i @ ''. **'' @ py_str fmt (project_title p) @ ''** (''
            @ py_str fmt (project_year p) @ '')'' @ newline
          @ ''   '' @ mark_memo @ '' '' @ py_str fmt d300 @ ''...'' @ newline
          @ ''   '' @ mark_tools @ '' Tech: '' @ tech @ newline
          @ ''   '' @ mark_link @ '' '' @ py_str fmt (project_url p) @ newline
          @ ''   '' @ mark_chart @ '' Relevance: '' @ relevance @ newline @ newline))))"

definition project_source_entry :: "project \<Rightarrow> exn + json" where
  "project_source_entry p =
     bind_exn (bind_exn (py_slice (project_description p) 200) (\<lambda>d. py_add_str d ''...''))
       (\<lambda>excerpt.
     Inr (JObj [(''type'', JStr ''devpost_project''),
                (''title'', project_title p),
                (''description'', excerpt),
                (''url'', project_url p),
                (''technologies'', project_technologies p),
                (''year'', project_year p),
                (''relevance_score'', project_score p)]))"

fun projects_loop ::
  "py_format \<Rightarrow> nat \<Rightarrow> project list \<Rightarrow> string \<Rightarrow> json list
     \<Rightarrow> (exn + string) \<times> json list" where
  "projects_loop fmt i [] project_context srcs = (Inr project_context, srcs)"
| "projects_loop fmt i (p # rest) project_context srcs =
     (case project_lines fmt i p of
        Inl e \<Rightarrow> (Inl e, srcs)
      | Inr lines \<Rightarrow>
          (case project_source_entry p of
             Inl e \<Rightarrow> (Inl e, srcs)
           | Inr entry \<Rightarrow>
               projects_loop fmt (Suc i) rest (project_context @ lines) (srcs @ [entry])))"

definition activity_line :: "py_format \<Rightarrow> json \<Rightarrow> exn + string" where
  "activity_line fmt item =
     bind_exn (py_getitem item ''type'') (\<lambda>ty.
     bind_exn (bind_exn (py_getitem item ''message'') (\<lambda>m. py_slice m 100)) (\<lambda>m100.
     Inr (''- '' @ py_str fmt ty @ '': '' @ py_str fmt m100 @ ''...'' @ newline)))"

fun activity_loop :: "py_format \<Rightarrow> json list \<Rightarrow> string \<Rightarrow> exn + string" where
  "activity_loop fmt [] github_context = Inr github_context"
| "activity_loop fmt (item # rest) github_context =
     (case activity_line fmt item of
        Inl e \<Rightarrow> Inl e
      | Inr line \<Rightarrow> activity_loop fmt rest (github_context @ line))"

text \<open>
  The three retrieval steps of the \<open>try\<close> block. Each returns the exception that ended
  it, if any, the context data as it stands, and the state of the service it used.
\<close>

definition documentation_step ::
  "'c es_search \<Rightarrow> py_format \<Rightarrow> string \<Rightarrow> real list \<Rightarrow> context_data \<Rightarrow> 'c
     \<Rightarrow> exn option \<times> context_data \<times> 'c" where
  "documentation_step search fmt message message_embedding cd c =
     (let (docs, c1) = search_documentation search message (Some message_embedding) 3 c
      in if docs \<noteq> [] then
           (case docs_loop fmt 1 docs
                   (mark_books @ '' **Relevant Documentation:**'' @ newline) (sources cd) of
              (Inr doc_context, srcs) \<Rightarrow>
                (None,
                 cd\<lparr>sources := srcs, formatted_context := formatted_context cd @ doc_context\<rparr>,
                 c1)
            | (Inl e, srcs) \<Rightarrow> (Some e, cd\<lparr>sources := srcs\<rparr>, c1))
         else (None, cd, c1))"

definition projects_step ::
  "'c es_search \<Rightarrow> py_format \<Rightarrow> string \<Rightarrow> real list \<Rightarrow> context_data \<Rightarrow> 'c
     \<Rightarrow> exn option \<times> context_data \<times> 'c" where
  "projects_step search fmt message message_embedding cd c =
     (if context_type cd \<in> set [''idea_validation'', ''inspiration''] then
        (let (projects, c1) = search_devpost_projects search message (Some message_embedding) 3 c
         in if projects \<noteq> [] then
              (case projects_loop fmt 1 projects
                      (newline @ mark_rocket @ '' **Similar Hackathon Projects:**'' @ newline)
                      (sources cd) of
                 (Inr project_context, srcs) \<Rightarrow>
                   (None,
                    cd\<lparr>sources := srcs,
                       formatted_context := formatted_context cd @ project_context\<rparr>,
                    c1)
               | (Inl e, srcs) \<Rightarrow> (Some e, cd\<lparr>sources := srcs\<rparr>, c1))
            else (None, cd, c1))
      else (None, cd, c))"

definition truthy_str :: "string option \<Rightarrow> bool" where
  "truthy_str t = (case t of None \<Rightarrow> False | Some u \<Rightarrow> u \<noteq> [])"

definition activity_step ::
  "'h activity_fetch \<Rightarrow> py_format \<Rightarrow> string option \<Rightarrow> context_data \<Rightarrow> 'h
     \<Rightarrow> exn option \<times> context_data \<times> 'h" where
  "activity_step fetch fmt repo_url cd h =
     (if context_type cd = ''progress'' \<and> truthy_str repo_url then
        (let (activity, h1) = get_repository_activity fetch (the repo_url) 3 h
         in if activity \<noteq> [] then
              (case activity_loop fmt (take 5 activity) (''Recent GitHub Activity:'' @ newline) of
                 Inr github_context \<Rightarrow>
                   (None, cd\<lparr>formatted_context := formatted_context cd @ github_context\<rparr>, h1)
               | Inl e \<Rightarrow> (Some e, cd, h1))
            else (None, cd, h1))
      else (None, cd, h))"

text \<open>
  \<open>_gather_context\<close>: the steps in order inside one \<open>try\<close>; the \<open>except\<close> block returns the
  context data as it stands when a step raises.
\<close>

definition initial_context :: "string \<Rightarrow> string option \<Rightarrow> context_data" where
  "initial_context message context_type_arg =
     \<lparr>formatted_context = [],
      sources = [],
      context_type =
        (if truthy_str context_type_arg then the context_type_arg
         else detect_context_type message)\<rparr>"

definition gather_context ::
  "'c es_search \<Rightarrow> 'h activity_fetch \<Rightarrow> py_format \<Rightarrow> string \<Rightarrow> real list \<Rightarrow> string option
     \<Rightarrow> string option \<Rightarrow> 'c \<Rightarrow> 'h \<Rightarrow> context_data \<times> 'c \<times> 'h" where
  "gather_context search fetch fmt message message_embedding context_type_arg repo_url c h =
     (let cd0 = initial_context message context_type_arg
      in case documentation_step search fmt message message_embedding cd0 c of
           (Some e, cd1, c1) \<Rightarrow> (cd1, c1, h)
         | (None, cd1, c1) \<Rightarrow>
             (case projects_step search fmt message message_embedding cd1 c1 of
                (Some e, cd2, c2) \<Rightarrow> (cd2, c2, h)
              | (None, cd2, c2) \<Rightarrow>
                  (case activity_step fetch fmt repo_url cd2 h of
                     (raised, cd3, h1) \<Rightarrow> (cd3, c2, h1))))"

text \<open>For concrete runs: a printer of values, and a hosting client that counts its calls.\<close>

definition toy_format :: py_format where
  "toy_format =
     \<lparr>str_of = (\<lambda>x. ''?''),
      format_2f = (\<lambda>x. case x of JFloat r \<Rightarrow> Inr ''#.##'' | JInt n \<Rightarrow> Inr ''#.00''
                          | _ \<Rightarrow> Inl TypeError)\<rparr>"

definition counting_fetch :: "nat activity_fetch" where
  "counting_fetch n repo_url days = (Inl (Exception ''rate limited''), Suc n)"


text \<open>A context of type \<open>progress\<close> for concrete runs.\<close>

definition progress_context :: context_data where
  "progress_context = initial_context ''how are we doing'' (Some ''progress'')"


section \<open>Search endpoint (\<open>search.py\<close>, \<open>search\<close>)\<close>

record search_request =
  req_query :: string
  req_search_type :: string
  req_index :: "string option"
  req_size :: int

text \<open>The model class \<open>SearchResult\<close>; scores are modelled as reals.\<close>

record search_result_item =
  item_title :: string
  item_description :: string
  item_url :: "string option"
  item_score :: real
  item_source :: string
  item_metadata :: "(string \<times> json) list"

record search_response =
  resp_results :: "search_result_item list"
  resp_total :: int
  resp_query :: string
  resp_search_type :: string

text \<open>
  The validation that the model class applies to the fields of a \<open>SearchResult\<close>: it
  raises or returns the value of the declared type. It belongs to the validation
  library and is taken as given.
\<close>

record pydantic =
  validate_str :: "json \<Rightarrow> exn + string"
  validate_optional_str :: "json \<Rightarrow> exn + string option"
  validate_float :: "json \<Rightarrow> exn + real"

definition project_result :: "pydantic \<Rightarrow> project \<Rightarrow> exn + search_result_item" where
  "project_result v p =
     bind_exn (validate_str v (project_title p)) (\<lambda>t.
     bind_exn (validate_str v (project_description p)) (\<lambda>d.
     bind_exn (validate_optional_str v (project_url p)) (\<lambda>u.
     bind_exn (validate_float v (project_score p)) (\<lambda>sc.
     Inr \<lparr>item_title = t, item_description = d, item_url = u, item_score = sc,
          item_source = ''devpost'',
          item_metadata = [(''technologies'', project_technologies p),
                           (''category'', project_category p),
                           (''year'', project_year p)]\<rparr>))))"

definition doc_result :: "pydantic \<Rightarrow> doc \<Rightarrow> exn + search_result_item" where
  "doc_result v d =
     bind_exn (bind_exn (py_slice (doc_content d) 300) (\<lambda>c. py_add_str c ''...'')) (\<lambda>excerpt.
     bind_exn (validate_str v (doc_title d)) (\<lambda>t.
     bind_exn (validate_str v excerpt) (\<lambda>desc.
     bind_exn (validate_optional_str v (doc_url d)) (\<lambda>u.
     bind_exn (validate_float v (doc_score d)) (\<lambda>sc.
     Inr \<lparr>item_title = t, item_description = desc, item_url = u, item_score = sc,
          item_source = ''documentation'',
          item_metadata = [(''section'', doc_section d),
                           (''doc_source'', doc_source d)]\<rparr>)))))"

text \<open>
  The loop that appends one result per entry to \<open>all_results\<close>. An exception ends the loop
  for this index (the \<open>except\<close> block logs and continues with the next index); what has
  been appended stays.
\<close>

fun append_results ::
  "('a \<Rightarrow> exn + search_result_item) \<Rightarrow> 'a list \<Rightarrow> search_result_item list
     \<Rightarrow> search_result_item list" where
  "append_results f [] all_results = all_results"
| "append_results f (x # xs) all_results =
     (case f x of
        Inl e \<Rightarrow> all_results
      | Inr r \<Rightarrow> append_results f xs (all_results @ [r]))"

text \<open>The body of the loop over \<open>indices_to_search\<close>, for one index.\<close>

definition search_one_index ::
  "pydantic \<Rightarrow> 'c es_search \<Rightarrow> search_request \<Rightarrow> real list option \<Rightarrow> string
     \<Rightarrow> search_result_item list \<Rightarrow> 'c \<Rightarrow> search_result_item list \<times> 'c" where
  "search_one_index v search request query_embedding index all_results c =
     (if index = ''devpost_projects'' then
        (let (projects, c1) =
               search_devpost_projects search (req_query request)
                 (if req_search_type request \<noteq> ''keyword'' then query_embedding else None)
                 (req_size request) c
         in (append_results (project_result v) projects all_results, c1))
      else if index = ''hackathon_docs'' then
        (let (docs, c1) =
               search_documentation search (req_query request)
                 (if req_search_type request \<noteq> ''keyword'' then query_embedding else None)
                 (req_size request) c
         in (append_results (doc_result v) docs all_results, c1))
      else (all_results, c))"

fun search_indices ::
  "pydantic \<Rightarrow> 'c es_search \<Rightarrow> search_request \<Rightarrow> real list option \<Rightarrow> string list
     \<Rightarrow> search_result_item list \<Rightarrow> 'c \<Rightarrow> search_result_item list \<times> 'c" where
  "search_indices v search request query_embedding [] all_results c = (all_results, c)"
| "search_indices v search request query_embedding (index # rest) all_results c =
     (case search_one_index v search request query_embedding index all_results c of
        (all_results1, c1) \<Rightarrow> search_indices v search request query_embedding rest all_results1 c1)"

text \<open>The embedding of the query, asked of the generation facade for the vector searches.\<close>

definition query_embedding_of ::
  "'r real_api \<Rightarrow> 'g runtime \<Rightarrow> search_request \<Rightarrow> ('r, 'g) vertex_service
     \<Rightarrow> (exn + real list option) \<times> ('r, 'g) vertex_service" where
  "query_embedding_of api rt request s =
     (if req_search_type request \<in> set [''hybrid'', ''semantic''] then
        (case generate_single_embedding api rt (req_query request) s of
           (Inr e, s1) \<Rightarrow> (Inr (Some e), s1)
         | (Inl x, s1) \<Rightarrow> (Inl x, s1))
      else (Inr None, s))"

definition indices_to_search :: "search_request \<Rightarrow> string list" where
  "indices_to_search request =
     (if truthy_str (req_index request) then [the (req_index request)]
      else [''devpost_projects'', ''hackathon_docs''])"

text \<open>
  The endpoint. \<open>all_results.sort(key=lambda x: x.score, reverse=True)\<close> is a stable sort
  by descending score. Any exception that reaches the outer \<open>except\<close> becomes the HTTP
  error 500.
\<close>

definition search_endpoint ::
  "'r real_api \<Rightarrow> 'g runtime \<Rightarrow> pydantic \<Rightarrow> 'c es_search \<Rightarrow> search_request
     \<Rightarrow> ('r, 'g) vertex_service \<Rightarrow> 'c
     \<Rightarrow> (exn + search_response) \<times> ('r, 'g) vertex_service \<times> 'c" where
  "search_endpoint api rt v search request s c =
     (case query_embedding_of api rt request s of
        (Inl x, s1) \<Rightarrow> (Inl (HTTPException 500 ''Search request failed''), s1, c)
      | (Inr query_embedding, s1) \<Rightarrow>
          (let (all_results, c1) =
                 search_indices v search request query_embedding (indices_to_search request) [] c;
               sorted_results = sort_key (\<lambda>x. - item_score x) all_results;
               limited_results = py_prefix (req_size request) sorted_results
           in (Inr \<lparr>resp_results = limited_results,
                    resp_total = int (length all_results),
                    resp_query = req_query request,
                    resp_search_type = req_search_type request\<rparr>,
               s1, c1)))"

text \<open>A validation for concrete runs: it accepts the values that already have the declared type.\<close>

definition plain_validation :: pydantic where
  "plain_validation =
     \<lparr>validate_str = (\<lambda>x. case x of JStr t \<Rightarrow> Inr t | _ \<Rightarrow> Inl TypeError),
      validate_optional_str =
        (\<lambda>x. case x of JStr t \<Rightarrow> Inr (Some t) | JNull \<Rightarrow> Inr None | _ \<Rightarrow> Inl TypeError),
      validate_float =
        (\<lambda>x. case x of JFloat r \<Rightarrow> Inr r | JInt n \<Rightarrow> Inr (real_of_int n)
                 | _ \<Rightarrow> Inl TypeError)\<rparr>"

text \<open>
  A search client for concrete runs that answers the project index with two hits and
  the documentation index with one.
\<close>

definition two_index_client :: "nat es_search" where
  "two_index_client n index body =
     (if index = ''devpost_projects'' then
        (Inr (JObj [(''hits'',
               JObj [(''total'', JObj [(''value'', JInt 2)]),
                     (''max_score'', JFloat 3),
                     (''hits'',
                      JArr [JObj [(''_score'', JFloat 1),
                                  (''_source'',
                                   JObj [(''title'', JStr ''Recipe box''),
                                         (''description'', JStr ''Share recipes''),
                                         (''url'', JStr ''https://devpost.com/a'')])],
                            JObj [(''_score'', JFloat 3),
                                  (''_source'',
                                   JObj [(''title'', JStr ''Meal planner''),
                                         (''description'', JStr ''Plan meals''),
                                         (''url'', JStr ''https://devpost.com/b'')])]])])]),
         Suc n)
      else
        (Inr (JObj [(''hits'',
               JObj [(''total'', JObj [(''value'', JInt 1)]),
                     (''max_score'', JFloat 2),
                     (''hits'',
                      JArr [JObj [(''_score'', JFloat 2),
                                  (''_source'',
                                   JObj [(''title'', JStr ''Rules''),
                                         (''content'', JStr ''Submit by Sunday''),
                                         (''url'', JStr ''https://docs.example/rules'')])]])])]),
         Suc n))"

definition keyword_request :: search_request where
  "keyword_request =
     \<lparr>req_query = ''recipes'', req_search_type = ''keyword'', req_index = None, req_size = 2\<rparr>"


text \<open>The results that the two-index client leads to.\<close>

definition meal_planner_item :: search_result_item where
  "meal_planner_item =
     \<lparr>item_title = ''Meal planner'', item_description = ''Plan meals'',
      item_url = Some ''https://devpost.com/b'', item_score = 3, item_source = ''devpost'',
      item_metadata = [(''technologies'', JArr []), (''category'', JStr []),
                       (''year'', JStr [])]\<rparr>"

definition recipe_box_item :: search_result_item where
  "recipe_box_item =
     \<lparr>item_title = ''Recipe box'', item_description = ''Share recipes'',
      item_url = Some ''https://devpost.com/a'', item_score = 1, item_source = ''devpost'',
      item_metadata = [(''technologies'', JArr []), (''category'', JStr []),
                       (''year'', JStr [])]\<rparr>"

definition rules_item :: search_result_item where
  "rules_item =
     \<lparr>item_title = ''Rules'', item_description = ''Submit by Sunday...'',
      item_url = Some ''https://docs.example/rules'', item_score = 2,
      item_source = ''documentation'',
      item_metadata = [(''section'', JStr []), (''doc_source'', JStr [])]\<rparr>"


section \<open>Webhook endpoint (\<open>webhook.py\<close>)\<close>

text \<open>
  \<open>self.client.index(index=..., id=..., body=...)\<close> on the client state \<open>'c\<close>, and
  \<open>ElasticService.index_document\<close>, which answers \<open>False\<close> when the client raises.
\<close>

type_synonym 'c es_index = "'c \<Rightarrow> string \<Rightarrow> string \<Rightarrow> json \<Rightarrow> (exn + unit) \<times> 'c"

definition index_document ::
  "'c es_index \<Rightarrow> string \<Rightarrow> string \<Rightarrow> json \<Rightarrow> 'c \<Rightarrow> bool \<times> 'c" where
  "index_document idx index doc_id document c =
     (case idx c index doc_id document of
        (Inr u, c1) \<Rightarrow> (True, c1)
      | (Inl e, c1) \<Rightarrow> (False, c1))"

definition processed_at :: string where
  "processed_at = ''2024-10-24T12:00:00Z''"

text \<open>The key of a commit document: \<open>f"commit_{commit.get('id', '')}"\<close>.\<close>

definition commit_doc_id :: "py_format \<Rightarrow> json \<Rightarrow> exn + string" where
  "commit_doc_id fmt commit =
     bind_exn (py_get commit ''id'' (JStr [])) (\<lambda>cid. Inr (''commit_'' @ py_str fmt cid))"

text \<open>The dictionary \<open>commit_data\<close> of one commit, with its key.\<close>

definition commit_document ::
  "py_format \<Rightarrow> json \<Rightarrow> json \<Rightarrow> json \<Rightarrow> json \<Rightarrow> exn + string \<times> json" where
  "commit_document fmt repo_name repo_url pusher commit =
     bind_exn (commit_doc_id fmt commit) (\<lambda>doc_id.
     bind_exn (py_get commit ''id'' (JStr [])) (\<lambda>cid.
     bind_exn (py_get commit ''message'' (JStr [])) (\<lambda>msg.
     bind_exn (bind_exn (py_get commit ''author'' (JObj []))
                 (\<lambda>a. py_get a ''name'' (JStr ''Unknown''))) (\<lambda>author.
     bind_exn (bind_exn (py_get commit ''author'' (JObj []))
                 (\<lambda>a. py_get a ''email'' (JStr []))) (\<lambda>email.
     bind_exn (py_get commit ''timestamp'' (JStr [])) (\<lambda>ts.
     bind_exn (py_get commit ''url'' (JStr [])) (\<lambda>url.
     bind_exn (py_get commit ''added'' (JArr [])) (\<lambda>added.
     bind_exn (py_get commit ''modified'' (JArr [])) (\<lambda>modified.
     bind_exn (py_get commit ''removed'' (JArr [])) (\<lambda>removed.
     bind_exn (py_len added) (\<lambda>n_added.
     bind_exn (py_len modified) (\<lambda>n_modified.
     bind_exn (py_len removed) (\<lambda>n_removed.
     bind_exn (py_get pusher ''name'' (JStr ''Unknown'')) (\<lambda>pusher_name.
     Inr (doc_id,
          JObj [(''id'', JStr doc_id),
                (''type'', JStr ''commit''),
                (''repository'', repo_name),
                (''repository_url'', repo_url),
                (''commit_id'', cid),
                (''message'', msg),
                (''author'', author),
                (''author_email'', email),
                (''timestamp'', ts),
                (''url'', url),
                (''added_files'', added),
                (''modified_files'', modified),
                (''removed_files'', removed),
                (''total_changes'', JInt (int (n_added + n_modified + n_removed))),
                (''pusher'', pusher_name),
                (''event_type'', JStr ''push''),
                (''processed_at'', JStr processed_at)])))))))))))))))"

text \<open>
  The loop over the commits: the document of a commit is built and indexed before the
  next commit is looked at; an exception ends the loop.
\<close>

fun push_loop ::
  "'c es_index \<Rightarrow> py_format \<Rightarrow> json \<Rightarrow> json \<Rightarrow> json \<Rightarrow> json list \<Rightarrow> 'c \<Rightarrow> exn option \<times> 'c" where
  "push_loop idx fmt repo_name repo_url pusher [] c = (None, c)"
| "push_loop idx fmt repo_name repo_url pusher (commit # rest) c =
     (case commit_document fmt repo_name repo_url pusher commit of
        Inl e \<Rightarrow> (Some e, c)
      | Inr (doc_id, document) \<Rightarrow>
          push_loop idx fmt repo_name repo_url pusher rest
            (snd (index_document idx GITHUB_INDEX doc_id document c)))"

text \<open>What \<open>_process_push_event\<close> reads from the payload before the loop.\<close>

definition push_header :: "json \<Rightarrow> exn + json \<times> json \<times> json \<times> json list" where
  "push_header payload =
     bind_exn (py_get payload ''repository'' (JObj [])) (\<lambda>repository.
     bind_exn (py_get payload ''commits'' (JArr [])) (\<lambda>commits.
     bind_exn (py_get payload ''pusher'' (JObj [])) (\<lambda>pusher.
     bind_exn (py_get repository ''full_name'' (JStr ''unknown'')) (\<lambda>repo_name.
     bind_exn (py_get repository ''html_url'' (JStr [])) (\<lambda>repo_url.
     bind_exn (py_iter commits) (\<lambda>cs.
     Inr (repo_name, repo_url, pusher, cs)))))))"

text \<open>\<open>_process_push_event\<close>: every exception is caught and logged; the effect is on the index.\<close>

definition process_push_event :: "'c es_index \<Rightarrow> py_format \<Rightarrow> json \<Rightarrow> 'c \<Rightarrow> 'c" where
  "process_push_event idx fmt payload c =
     (case push_header payload of
        Inl e \<Rightarrow> c
      | Inr (repo_name, repo_url, pusher, cs) \<Rightarrow>
          snd (push_loop idx fmt repo_name repo_url pusher cs c))"

text \<open>The dictionary \<open>pr_data\<close> of \<open>_process_pr_event\<close>, with its key.\<close>

definition pr_document :: "py_format \<Rightarrow> json \<Rightarrow> exn + string \<times> json" where
  "pr_document fmt payload =
     bind_exn (py_get payload ''action'' (JStr [])) (\<lambda>action.
     bind_exn (py_get payload ''pull_request'' (JObj [])) (\<lambda>pull_request.
     bind_exn (py_get payload ''repository'' (JObj [])) (\<lambda>repository.
     bind_exn (py_get pull_request ''id'' (JStr [])) (\<lambda>pid.
     bind_exn (py_get repository ''full_name'' (JStr ''unknown'')) (\<lambda>repo_name.
     bind_exn (py_get repository ''html_url'' (JStr [])) (\<lambda>repo_url.
     bind_exn (py_get pull_request ''number'' (JInt 0)) (\<lambda>number.
     bind_exn (py_get pull_request ''title'' (JStr [])) (\<lambda>title.
     bind_exn (py_get pull_request ''body'' (JStr [])) (\<lambda>body.
     bind_exn (py_get pull_request ''state'' (JStr [])) (\<lambda>state.
     bind_exn (bind_exn (py_get pull_request ''user'' (JObj []))
                 (\<lambda>u. py_get u ''login'' (JStr ''Unknown''))) (\<lambda>author.
     bind_exn (py_get pull_request ''created_at'' (JStr [])) (\<lambda>created_at.
     bind_exn (py_get pull_request ''updated_at'' (JStr [])) (\<lambda>updated_at.
     bind_exn (py_get pull_request ''html_url'' (JStr [])) (\<lambda>url.
     Inr (''pr_'' @ py_str fmt pid,
          JObj [(''id'', JStr (''pr_'' @ py_str fmt pid)),
                (''type'', JStr ''pull_request''),
                (''repository'', repo_name),
                (''repository_url'', repo_url),
                (''pr_number'', number),
                (''title'', title),
                (''body'', body),
                (''state'', state),
                (''action'', action),
                (''author'', author),
                (''created_at'', created_at),
                (''updated_at'', updated_at),
                (''url'', url),
                (''event_type'', JStr ''pull_request''),
                (''processed_at'', JStr processed_at)])))))))))))))))"

definition process_pr_event :: "'c es_index \<Rightarrow> py_format \<Rightarrow> json \<Rightarrow> 'c \<Rightarrow> 'c" where
  "process_pr_event idx fmt payload c =
     (case pr_document fmt payload of
        Inl e \<Rightarrow> c
      | Inr (doc_id, document) \<Rightarrow> snd (index_document idx GITHUB_INDEX doc_id document c))"

text \<open>The dictionary \<open>issue_data\<close> of \<open>_process_issue_event\<close>, with its key.\<close>

definition issue_document :: "py_format \<Rightarrow> json \<Rightarrow> exn + string \<times> json" where
  "issue_document fmt payload =
     bind_exn (py_get payload ''action'' (JStr [])) (\<lambda>action.
     bind_exn (py_get payload ''issue'' (JObj [])) (\<lambda>issue.
     bind_exn (py_get payload ''repository'' (JObj [])) (\<lambda>repository.
     bind_exn (py_get issue ''id'' (JStr [])) (\<lambda>iid.
     bind_exn (py_get repository ''full_name'' (JStr ''unknown'')) (\<lambda>repo_name.
     bind_exn (py_get repository ''html_url'' (JStr [])) (\<lambda>repo_url.
     bind_exn (py_get issue ''number'' (JInt 0)) (\<lambda>number.
     bind_exn (py_get issue ''title'' (JStr [])) (\<lambda>title.
     bind_exn (py_get issue ''body'' (JStr [])) (\<lambda>body.
     bind_exn (py_get issue ''state'' (JStr [])) (\<lambda>state.
     bind_exn (bind_exn (py_get issue ''user'' (JObj []))
                 (\<lambda>u. py_get u ''login'' (JStr ''Unknown''))) (\<lambda>author.
     bind_exn (bind_exn (bind_exn (py_get issue ''labels'' (JArr [])) py_iter)
                 (map_exn (\<lambda>label. py_get label ''name'' (JStr [])))) (\<lambda>labels.
     bind_exn (py_get issue ''created_at'' (JStr [])) (\<lambda>created_at.
     bind_exn (py_get issue ''updated_at'' (JStr [])) (\<lambda>updated_at.
     bind_exn (py_get issue ''html_url'' (JStr [])) (\<lambda>url.
     Inr (''issue_'' @ py_str fmt iid,
          JObj [(''id'', JStr (''issue_'' @ py_str fmt iid)),
                (''type'', JStr ''issue''),
                (''repository'', repo_name),
                (''repository_url'', repo_url),
                (''issue_number'', number),
                (''title'', title),
                (''body'', body),
                (''state'', state),
                (''action'', action),
                (''author'', author),
                (''labels'', JArr labels),
                (''created_at'', created_at),
                (''updated_at'', updated_at),
                (''url'', url),
                (''event_type'', JStr ''issue''),
                (''processed_at'', JStr processed_at)]))))))))))))))))"

definition process_issue_event :: "'c es_index \<Rightarrow> py_format \<Rightarrow> json \<Rightarrow> 'c \<Rightarrow> 'c" where
  "process_issue_event idx fmt payload c =
     (case issue_document fmt payload of
        Inl e \<Rightarrow> c
      | Inr (doc_id, document) \<Rightarrow> snd (index_document idx GITHUB_INDEX doc_id document c))"

text \<open>
  Signature check. \<open>hmac_hex secret body\<close> stands for the hexadecimal HMAC-SHA256 digest
  of the body under the secret. \<open>hmac.compare_digest\<close> on two texts raises unless both are
  ASCII, and otherwise tells whether they are equal; the time it takes is not modelled.
\<close>

definition is_ascii :: "string \<Rightarrow> bool" where
  "is_ascii t = list_all (\<lambda>ch. (of_char ch :: nat) < 128) t"

definition compare_digest :: "string \<Rightarrow> string \<Rightarrow> exn + bool" where
  "compare_digest a b = (if is_ascii a \<and> is_ascii b then Inr (a = b) else Inl TypeError)"

definition verify_signature ::
  "(string \<Rightarrow> string \<Rightarrow> string) \<Rightarrow> string \<Rightarrow> string \<Rightarrow> string option \<Rightarrow> bool" where
  "verify_signature hmac_hex secret payload_body signature_header =
     (if \<not> truthy_str signature_header \<or> secret = [] then False
      else (case compare_digest (''sha256='' @ hmac_hex secret payload_body)
                   (the signature_header) of
              Inr equal \<Rightarrow> equal
            | Inl e \<Rightarrow> False))"

text \<open>The request as the endpoint reads it, and the background tasks it can schedule.\<close>

record webhook_request =
  raw_body :: string
  signature_256 :: "string option"
  github_event :: "string option"

datatype task = ProcessPush json | ProcessPR json | ProcessIssue json

text \<open>
  The \<open>try\<close> block of \<open>github_webhook\<close>. \<open>loads\<close> stands for decoding and parsing the body
  (\<open>json.loads(body.decode())\<close>). The result is what the block raises or returns, and the
  list of the tasks scheduled.
\<close>

definition github_webhook_try ::
  "(string \<Rightarrow> string \<Rightarrow> string) \<Rightarrow> (string \<Rightarrow> exn + json) \<Rightarrow> string \<Rightarrow> webhook_request
     \<Rightarrow> (exn + string \<times> string option) \<times> task list" where
  "github_webhook_try hmac_hex loads secret request =
     (if \<not> verify_signature hmac_hex secret (raw_body request) (signature_256 request)
      then (Inl (HTTPException 401 ''Invalid signature''), [])
      else (case loads (raw_body request) of
              Inl e \<Rightarrow> (Inl e, [])
            | Inr payload \<Rightarrow>
                (Inr (''received'', github_event request),
                 (if github_event request = Some ''push'' then [ProcessPush payload]
                  else if github_event request = Some ''pull_request'' then [ProcessPR payload]
                  else if github_event request = Some ''issues'' then [ProcessIssue payload]
                  else []))))"

text \<open>
  \<open>github_webhook\<close>: the \<open>except Exception\<close> block around the whole body turns whatever the
  block raises into the HTTP error 500.
\<close>

definition github_webhook ::
  "(string \<Rightarrow> string \<Rightarrow> string) \<Rightarrow> (string \<Rightarrow> exn + json) \<Rightarrow> string \<Rightarrow> webhook_request
     \<Rightarrow> (exn + string \<times> string option) \<times> task list" where
  "github_webhook hmac_hex loads secret request =
     (case github_webhook_try hmac_hex loads secret request of
        (Inl e, tasks) \<Rightarrow> (Inl (HTTPException 500 ''Webhook processing failed''), tasks)
      | (Inr response, tasks) \<Rightarrow> (Inr response, tasks))"

definition run_task :: "'c es_index \<Rightarrow> py_format \<Rightarrow> task \<Rightarrow> 'c \<Rightarrow> 'c" where
  "run_task idx fmt t c =
     (case t of
        ProcessPush payload \<Rightarrow> process_push_event idx fmt payload c
      | ProcessPR payload \<Rightarrow> process_pr_event idx fmt payload c
      | ProcessIssue payload \<Rightarrow> process_issue_event idx fmt payload c)"

text \<open>
  A push payload is well formed when it is an object whose \<open>repository\<close> and \<open>pusher\<close>, if
  present, are objects, whose \<open>commits\<close> is a list, and each commit is an object whose
  \<open>author\<close>, if present, is an object and whose file lists, if present, are lists.
\<close>

definition is_object :: "json \<Rightarrow> bool" where
  "is_object x = (case x of JObj items \<Rightarrow> True | _ \<Rightarrow> False)"

definition is_array :: "json \<Rightarrow> bool" where
  "is_array x = (case x of JArr xs \<Rightarrow> True | _ \<Rightarrow> False)"

definition field_or :: "json \<Rightarrow> string \<Rightarrow> json \<Rightarrow> json" where
  "field_or x key dflt = (case py_get x key dflt of Inr v \<Rightarrow> v | Inl e \<Rightarrow> dflt)"

definition well_formed_commit :: "json \<Rightarrow> bool" where
  "well_formed_commit commit =
     (is_object commit
      \<and> is_object (field_or commit ''author'' (JObj []))
      \<and> is_array (field_or commit ''added'' (JArr []))
      \<and> is_array (field_or commit ''modified'' (JArr []))
      \<and> is_array (field_or commit ''removed'' (JArr [])))"

definition payload_commits :: "json \<Rightarrow> json list" where
  "payload_commits payload =
     (case field_or payload ''commits'' (JArr []) of JArr cs \<Rightarrow> cs | _ \<Rightarrow> [])"

definition well_formed_push :: "json \<Rightarrow> bool" where
  "well_formed_push payload =
     (is_object payload
      \<and> is_object (field_or payload ''repository'' (JObj []))
      \<and> is_object (field_or payload ''pusher'' (JObj []))
      \<and> is_array (field_or payload ''commits'' (JArr []))
      \<and> list_all well_formed_commit (payload_commits payload))"

text \<open>The upserts that a list of keyed documents amounts to, on any client.\<close>

definition upsert_all :: "'c es_index \<Rightarrow> (string \<times> json) list \<Rightarrow> 'c \<Rightarrow> 'c" where
  "upsert_all idx docs c =
     foldl (\<lambda>c1 (doc_id, document). snd (idx c1 GITHUB_INDEX doc_id document)) c docs"

text \<open>An index that stores what it is given under the index name and the key.\<close>

definition store_index :: "(string \<times> string \<rightharpoonup> json) es_index" where
  "store_index m index doc_id document = (Inr (), m((index, doc_id) \<mapsto> document))"

definition empty_index :: "string \<times> string \<rightharpoonup> json" where
  "empty_index = Map.empty"

text \<open>Two push payloads for concrete runs: same repository, same time, different commits.\<close>

definition commit_a :: json where
  "commit_a =
     JObj [(''id'', JStr ''a1''), (''message'', JStr ''Add search''),
           (''timestamp'', JStr ''2024-10-24T10:00:00Z''),
           (''author'', JObj [(''name'', JStr ''Ada'')]),
           (''added'', JArr [JStr ''search.py''])]"

definition commit_b :: json where
  "commit_b =
     JObj [(''id'', JStr ''b2''), (''message'', JStr ''Fix chat''),
           (''timestamp'', JStr ''2024-10-24T10:00:00Z''),
           (''author'', JObj [(''name'', JStr ''Bob'')]),
           (''modified'', JArr [JStr ''chat.py''])]"

definition push_a :: json where
  "push_a =
     JObj [(''repository'', JObj [(''full_name'', JStr ''team/app'')]),
           (''pusher'', JObj [(''name'', JStr ''Ada'')]),
           (''commits'', JArr [commit_a])]"

definition push_b :: json where
  "push_b =
     JObj [(''repository'', JObj [(''full_name'', JStr ''team/app'')]),
           (''pusher'', JObj [(''name'', JStr ''Ada'')]),
           (''commits'', JArr [commit_b])]"

definition push_ab :: json where
  "push_ab =
     JObj [(''repository'', JObj [(''full_name'', JStr ''team/app'')]),
           (''pusher'', JObj [(''name'', JStr ''Ada'')]),
           (''commits'', JArr [commit_a, commit_b])]"


text \<open>
  A pull-request payload is well formed when it is an object whose \<open>pull_request\<close> and
  \<open>repository\<close>, if present, are objects, and so is the \<open>user\<close> of the pull request.
\<close>

definition well_formed_pr :: "json \<Rightarrow> bool" where
  "well_formed_pr payload =
     (is_object payload
      \<and> is_object (field_or payload ''pull_request'' (JObj []))
      \<and> is_object (field_or payload ''repository'' (JObj []))
      \<and> is_object (field_or (field_or payload ''pull_request'' (JObj [])) ''user'' (JObj [])))"

definition pr_opened :: json where
  "pr_opened =
     JObj [(''action'', JStr ''opened''),
           (''pull_request'',
            JObj [(''id'', JStr ''7001''), (''number'', JInt 12), (''title'', JStr ''Add search''),
                  (''user'', JObj [(''login'', JStr ''ada'')])]),
           (''repository'', JObj [(''full_name'', JStr ''team/app'')])]"

text \<open>A digest function for concrete runs.\<close>

definition toy_hmac :: "string \<Rightarrow> string \<Rightarrow> string" where
  "toy_hmac secret payload_body = ''00ff''"


section \<open>Properties of the intent classifier\<close>

lemma lower_append: "lower (xs @ ys) = lower xs @ lower ys"
  by (simp add: lower_def)

lemma contains_lower_iff:
  "contains (lower m) kw \<longleftrightarrow> (\<exists>pre w post. m = pre @ w @ post \<and> lower w = kw)"
proof
  assume "contains (lower m) kw"
  then obtain ps ss where eq: "map lower_char m = ps @ kw @ ss"
    by (auto simp: contains_def sublist_def lower_def)
  from eq [unfolded map_eq_append_conv]
  obtain pre rest where m1: "m = pre @ rest" and r: "map lower_char rest = kw @ ss"
    by metis
  from r [unfolded map_eq_append_conv]
  obtain w post where "rest = w @ post" and "kw = map lower_char w"
    by metis
  with m1 show "\<exists>pre w post. m = pre @ w @ post \<and> lower w = kw"
    by (auto simp: lower_def)
next
  assume "\<exists>pre w post. m = pre @ w @ post \<and> lower w = kw"
  then obtain pre w post where "m = pre @ w @ post" and "lower w = kw"
    by blast
  then have "lower m = lower pre @ kw @ lower post"
    by (simp add: lower_append)
  then show "contains (lower m) kw"
    unfolding contains_def sublist_def by blast
qed

lemma any_in_lower_iff: "any_in kws (lower m) \<longleftrightarrow> mentions m kws"
  by (simp add: any_in_def mentions_def list_ex_iff contains_lower_iff)

text \<open>
  Claim C4. The classifier is a function of the message text alone that tests the
  idea-validation keywords first, then the progress keywords, then the documentation
  keywords; the first category with a keyword in the message is the result, and a
  message with no keyword is \<open>general\<close>. A message with both an idea-validation keyword
  and a progress keyword is classified \<open>idea_validation\<close>.
\<close>

theorem detect_context_type_priority:
  "detect_context_type m =
     (if mentions m idea_keywords then ''idea_validation''
      else if mentions m progress_keywords then ''progress''
      else if mentions m documentation_keywords then ''documentation''
      else ''general'')
   \<and> (mentions m idea_keywords \<and> mentions m progress_keywords
        \<longrightarrow> detect_context_type m = ''idea_validation'')"
  by (simp add: detect_context_type_def any_in_lower_iff)

theorem detect_context_type_priority_witness:
  "mentions ''Validate my IDEA before the next commit'' idea_keywords
   \<and> mentions ''Validate my IDEA before the next commit'' progress_keywords
   \<and> detect_context_type ''Validate my IDEA before the next commit'' = ''idea_validation''"
proof -
  let ?m = "''Validate my IDEA before the next commit''"
  have i: "mentions ?m idea_keywords"
    unfolding any_in_lower_iff [symmetric] by code_simp
  have p: "mentions ?m progress_keywords"
    unfolding any_in_lower_iff [symmetric] by code_simp
  from i p detect_context_type_priority [of ?m] show ?thesis
    by simp
qed


section \<open>Properties of the generation facade\<close>

lemma gen_response_fallback:
  "fallback_active s \<Longrightarrow>
   generate_response api rt render req s =
     (let (reply, g) = generate_fallback_response rt (prompt req) (gen_context req) (random_state s)
      in (render reply, s\<lparr>random_state := g\<rparr>))"
  unfolding generate_response_def by (cases "real_service s") simp_all

lemma gen_embeddings_fallback:
  "fallback_active s \<Longrightarrow>
   generate_embeddings api rt texts s =
     (let (es, g) = fallback_embeddings rt (embedding_dim s) texts (random_state s)
      in (es, s\<lparr>random_state := g\<rparr>))"
  unfolding generate_embeddings_def by (cases "real_service s") simp_all

lemma fallback_embeddings_single:
  "fallback_embeddings rt d [t] g =
     (let (e, g1) = draw_uniform rt d (rng_seed rt (str_hash rt t mod 10000)) in ([e], g1))"
  by (simp add: Let_def split: prod.splits)

lemma gen_single_fallback:
  "fallback_active s \<Longrightarrow>
   generate_single_embedding api rt text s =
     (let (e, g) = draw_uniform rt (embedding_dim s) (rng_seed rt (str_hash rt text mod 10000))
      in (Inr e, s\<lparr>random_state := g\<rparr>))"
  unfolding generate_single_embedding_def
  by (cases "real_service s")
     (simp_all add: gen_embeddings_fallback fallback_embeddings_single split: prod.splits)

lemma gen_idea_fallback:
  "fallback_active s \<Longrightarrow>
   generate_idea_validation_response api rt render d ps s =
     (let (reply, g) =
            fallback_idea_validation rt d
              (Some (''Found '' @ show_nat (length ps) @ '' similar projects'')) (random_state s)
      in (render reply, s\<lparr>random_state := g\<rparr>))"
  unfolding generate_idea_validation_response_def by (cases "real_service s") simp_all

lemma gen_progress_fallback:
  "fallback_active s \<Longrightarrow>
   generate_progress_summary api render a s = (render ProgressReply, s)"
  unfolding generate_progress_summary_def
  by (cases "real_service s") (simp_all add: fallback_progress_def)

lemma build_prompt_fallback:
  "fallback_active s \<Longrightarrow> build_comprehensive_prompt api q t c h s = (q, s)"
  unfolding build_comprehensive_prompt_def by (cases "real_service s") simp_all

lemma step_keeps:
  assumes "fallback_active s" and "generation_call c"
  shows "fallback_active (facade_step api rt render c s)
         \<and> real_service (facade_step api rt render c s) = real_service s"
  using assms
  by (cases c)
     (simp_all add: gen_response_fallback gen_embeddings_fallback gen_single_fallback
        gen_idea_fallback gen_progress_fallback build_prompt_fallback case_prod_beta Let_def)

lemma run_keeps:
  "fallback_active s \<Longrightarrow> list_all generation_call cs \<Longrightarrow>
   fallback_active (facade_run api rt render cs s)
   \<and> real_service (facade_run api rt render cs s) = real_service s"
proof (induction cs arbitrary: s)
  case Nil
  then show ?case by simp
next
  case (Cons c cs)
  from Cons.prems step_keeps [of s c api rt render]
  have a: "fallback_active (facade_step api rt render c s)"
    and b: "real_service (facade_step api rt render c s) = real_service s"
    by simp_all
  from Cons.IH [OF a] Cons.prems b show ?case by simp
qed

lemma health_flag:
  "fallback_active (snd (health_check api s)) =
       (case real_service s of
          None \<Rightarrow> True
        | Some r \<Rightarrow> fst (real_health_check api r) \<noteq> Inr True)"
  by (auto simp: health_check_def split: option.splits prod.splits sum.splits)

lemma only_health:
  assumes "fallback_active s" and "\<not> fallback_active (facade_step api rt render c s)"
  shows "c = HealthCheck \<and> (\<exists>r. real_service s = Some r \<and> fst (real_health_check api r) = Inr True)"
proof (cases "generation_call c")
  case True
  with assms step_keeps [of s c api rt render] show ?thesis by simp
next
  case False
  then have c: "c = HealthCheck" by (cases c) simp_all
  with assms(2) have "\<not> fallback_active (snd (health_check api s))" by simp
  then show ?thesis using c by (simp add: health_flag split: option.splits)
qed

lemma gen_response_real:
  assumes "real_service s = Some r" and "\<not> fallback_active s"
  shows "generate_response api rt render req s =
     (case real_generate_response api req r of
        (Inr text, r') \<Rightarrow>
          if length text > 10 then (text, s\<lparr>real_service := Some r'\<rparr>)
          else (let (reply, g) =
                      generate_fallback_response rt (prompt req) (gen_context req) (random_state s)
                in (render reply, s\<lparr>real_service := Some r', random_state := g\<rparr>))
      | (Inl e, r') \<Rightarrow>
          (let (reply, g) =
                 generate_fallback_response rt (prompt req) (gen_context req) (random_state s)
           in (render reply,
               s\<lparr>real_service := Some r', fallback_active := True, random_state := g\<rparr>)))"
  using assms unfolding generate_response_def
  by (cases "real_generate_response api req r"; cases "fst (real_generate_response api req r)")
     (auto simp: Let_def split: prod.splits)

lemma gen_embeddings_real:
  assumes "real_service s = Some r" and "\<not> fallback_active s"
  shows "generate_embeddings api rt texts s =
     (case real_generate_embeddings api texts r of
        (Inr es, r') \<Rightarrow>
          if es \<noteq> [] then (es, s\<lparr>real_service := Some r'\<rparr>)
          else (let (fs, g) = fallback_embeddings rt (embedding_dim s) texts (random_state s)
                in (fs, s\<lparr>real_service := Some r', random_state := g\<rparr>))
      | (Inl e, r') \<Rightarrow>
          (let (fs, g) = fallback_embeddings rt (embedding_dim s) texts (random_state s)
           in (fs, s\<lparr>real_service := Some r', fallback_active := True, random_state := g\<rparr>)))"
  using assms unfolding generate_embeddings_def
  by (cases "real_generate_embeddings api texts r"; cases "fst (real_generate_embeddings api texts r)")
     (auto simp: Let_def split: prod.splits)

lemma gen_single_real:
  assumes "real_service s = Some r" and "\<not> fallback_active s"
  shows "generate_single_embedding api rt text s =
     (case real_generate_single_embedding api text r of
        (Inr v, r') \<Rightarrow>
          if v \<noteq> [] then (Inr v, s\<lparr>real_service := Some r'\<rparr>)
          else (case generate_embeddings api rt [text] (s\<lparr>real_service := Some r'\<rparr>) of
                  (es, s2) \<Rightarrow> (case es of [] \<Rightarrow> (Inl IndexError, s2) | e # _ \<Rightarrow> (Inr e, s2)))
      | (Inl e, r') \<Rightarrow>
          (let (v, g) = draw_uniform rt (embedding_dim s) (rng_seed rt (str_hash rt text mod 10000))
           in (Inr v, s\<lparr>real_service := Some r', fallback_active := True, random_state := g\<rparr>)))"
  using assms unfolding generate_single_embedding_def
  by (cases "real_generate_single_embedding api text r"; cases "fst (real_generate_single_embedding api text r)")
     (auto simp: Let_def gen_embeddings_fallback fallback_embeddings_single split: prod.splits)

lemma length_draw_uniform: "length (fst (draw_uniform rt n g)) = n"
  by (induction n arbitrary: g) (simp_all add: case_prod_beta Let_def)

lemma fst_fallback_embeddings:
  "fst (fallback_embeddings rt d texts g) =
     map (\<lambda>t. fst (draw_uniform rt d (rng_seed rt (str_hash rt t mod 10000)))) texts"
  by (induction texts arbitrary: g) (simp_all add: case_prod_beta Let_def)

lemma gen_embeddings_fallback_fst:
  assumes "real_service s = None \<or> fallback_active s"
  shows "fst (generate_embeddings api rt texts s) =
     map (\<lambda>t. fst (draw_uniform rt (embedding_dim s) (rng_seed rt (str_hash rt t mod 10000)))) texts"
proof (cases "real_service s")
  case None
  then show ?thesis
    by (simp add: generate_embeddings_def case_prod_beta fst_fallback_embeddings)
next
  case (Some r)
  with assms have "fallback_active s" by simp
  then show ?thesis
    by (simp add: gen_embeddings_fallback case_prod_beta fst_fallback_embeddings)
qed

text \<open>
  Claim C10. \<open>health_check\<close> returns \<open>True\<close> on every call and writes the fallback flag on
  every call: the flag is set when the real service is absent or its probe raises or
  answers false, and it is cleared exactly when the probe of the real service succeeds.
\<close>

theorem health_check_always_true:
  "fst (health_check api s) = True
   \<and> fallback_active (snd (health_check api s)) =
       (case real_service s of
          None \<Rightarrow> True
        | Some r \<Rightarrow> fst (real_health_check api r) \<noteq> Inr True)"
  by (auto simp: health_check_def split: option.splits prod.splits sum.splits)

theorem health_check_always_true_witness:
  "fst (health_check (spy_api False (Inr ''text'') (Inr []) (Inr []))
          (vertex_init (Inr 0) (0::int)))
   \<and> fallback_active (snd (health_check (spy_api False (Inr ''text'') (Inr []) (Inr []))
          (vertex_init (Inr 0) (0::int))))
   \<and> \<not> fallback_active (snd (health_check (spy_api True (Inr ''text'') (Inr []) (Inr []))
          (snd (health_check (spy_api False (Inr ''text'') (Inr []) (Inr []))
             (vertex_init (Inr 0) (0::int))))))
   \<and> fallback_active (snd (health_check (spy_api True (Inr ''text'') (Inr []) (Inr []))
          (vertex_init (Inl (Exception ''no credentials'')) (0::int))))"
  using health_check_always_true [of "spy_api False (Inr ''text'') (Inr []) (Inr [])"
          "vertex_init (Inr 0) (0::int)"]
        health_check_always_true [of "spy_api True (Inr ''text'') (Inr []) (Inr [])"
          "snd (health_check (spy_api False (Inr ''text'') (Inr []) (Inr []))
             (vertex_init (Inr 0) (0::int)))"]
        health_check_always_true [of "spy_api True (Inr ''text'') (Inr []) (Inr [])"
          "vertex_init (Inl (Exception ''no credentials'')) (0::int)"]
  by (simp add: health_check_def spy_api_def vertex_init_def)

text \<open>
  Claim C1. Once \<open>fallback_active\<close> is set, \<open>generate_response\<close>, \<open>generate_embeddings\<close> and
  \<open>generate_single_embedding\<close> are computed by the fallback backend alone: their results do
  not depend on the real service, whose state they leave untouched. Any sequence of
  generating calls keeps the flag set and the real service untouched, a call that clears
  the flag is a health check whose probe succeeded, and such a health check clears it.
\<close>

theorem fallback_never_calls_real:
  assumes "fallback_active s"
  shows "generate_response api rt render req s =
           (let (reply, g) =
                  generate_fallback_response rt (prompt req) (gen_context req) (random_state s)
            in (render reply, s\<lparr>random_state := g\<rparr>))
       \<and> generate_embeddings api rt texts s =
           (let (es, g) = fallback_embeddings rt (embedding_dim s) texts (random_state s)
            in (es, s\<lparr>random_state := g\<rparr>))
       \<and> generate_single_embedding api rt text s =
           (let (e, g) =
                  draw_uniform rt (embedding_dim s) (rng_seed rt (str_hash rt text mod 10000))
            in (Inr e, s\<lparr>random_state := g\<rparr>))
       \<and> (list_all generation_call cs \<longrightarrow>
             fallback_active (facade_run api rt render cs s)
             \<and> real_service (facade_run api rt render cs s) = real_service s)
       \<and> (\<not> fallback_active (facade_step api rt render c s) \<longrightarrow>
             c = HealthCheck
             \<and> (\<exists>r. real_service s = Some r \<and> fst (real_health_check api r) = Inr True))
       \<and> (\<forall>r. real_service s = Some r \<and> fst (real_health_check api r) = Inr True \<longrightarrow>
             \<not> fallback_active (snd (health_check api s)))"
  using assms
  by (simp add: gen_response_fallback gen_embeddings_fallback gen_single_fallback
        run_keeps only_health health_flag)

theorem fallback_never_calls_real_witness:
  "fallback_active degraded_facade
   \<and> real_service degraded_facade = Some 1
   \<and> list_all generation_call
        [GenerateResponse demo_request, GenerateEmbeddings [''x'', ''y''],
         GenerateSingleEmbedding ''z'']
   \<and> fallback_active
        (facade_run (spy_api False (Inr ''a real answer, long enough'') (Inr [[1]]) (Inr [1]))
           toy_runtime toy_render
           [GenerateResponse demo_request, GenerateEmbeddings [''x'', ''y''],
            GenerateSingleEmbedding ''z''] degraded_facade)
   \<and> real_service
        (facade_run (spy_api False (Inr ''a real answer, long enough'') (Inr [[1]]) (Inr [1]))
           toy_runtime toy_render
           [GenerateResponse demo_request, GenerateEmbeddings [''x'', ''y''],
            GenerateSingleEmbedding ''z''] degraded_facade) = Some 1"
proof -
  let ?api = "spy_api False (Inr ''a real answer, long enough'') (Inr [[1]]) (Inr [1])"
  let ?cs = "[GenerateResponse demo_request, GenerateEmbeddings [''x'', ''y''],
              GenerateSingleEmbedding ''z'']"
  have a: "fallback_active degraded_facade"
    by (simp add: degraded_facade_def health_check_def spy_api_def vertex_init_def)
  have b: "real_service degraded_facade = Some 1"
    by (simp add: degraded_facade_def health_check_def spy_api_def vertex_init_def)
  have g: "list_all generation_call ?cs"
    by simp
  from fallback_never_calls_real [OF a, of ?api toy_runtime toy_render demo_request "[]" "''z''"
      ?cs HealthCheck] g
  have k: "fallback_active (facade_run ?api toy_runtime toy_render ?cs degraded_facade)
           \<and> real_service (facade_run ?api toy_runtime toy_render ?cs degraded_facade)
               = real_service degraded_facade"
    by blast
  from k b have k2:
    "real_service (facade_run ?api toy_runtime toy_render ?cs degraded_facade) = Some 1"
    by (simp only:)
  from a b g k [THEN conjunct1] k2 show ?thesis
    by (intro conjI)
qed


text \<open>
  Claim C5, as amended. In the REAL state (real service present, flag clear) a generating
  call asks the real service first. A non-trivial result (text longer than 10 characters,
  a non-empty list of vectors, a non-empty vector) is returned and the flag stays clear.
  If the real service raises, the flag is set and the call is served by the fallback
  backend. If the real service returns a degenerate result, the flag is left clear:
  \<open>generate_response\<close> and \<open>generate_embeddings\<close> serve this call from the fallback backend,
  and \<open>generate_single_embedding\<close> hands it to \<open>generate_embeddings\<close>.
\<close>

theorem real_state_generate:
  assumes "real_service s = Some r" and "\<not> fallback_active s"
  shows "generate_response api rt render req s =
           (case real_generate_response api req r of
              (Inr text, r') \<Rightarrow>
                if length text > 10 then (text, s\<lparr>real_service := Some r'\<rparr>)
                else (let (reply, g) =
                            generate_fallback_response rt (prompt req) (gen_context req)
                              (random_state s)
                      in (render reply, s\<lparr>real_service := Some r', random_state := g\<rparr>))
            | (Inl e, r') \<Rightarrow>
                (let (reply, g) =
                       generate_fallback_response rt (prompt req) (gen_context req)
                         (random_state s)
                 in (render reply,
                     s\<lparr>real_service := Some r', fallback_active := True, random_state := g\<rparr>)))
       \<and> generate_embeddings api rt texts s =
           (case real_generate_embeddings api texts r of
              (Inr es, r') \<Rightarrow>
                if es \<noteq> [] then (es, s\<lparr>real_service := Some r'\<rparr>)
                else (let (fs, g) = fallback_embeddings rt (embedding_dim s) texts (random_state s)
                      in (fs, s\<lparr>real_service := Some r', random_state := g\<rparr>))
            | (Inl e, r') \<Rightarrow>
                (let (fs, g) = fallback_embeddings rt (embedding_dim s) texts (random_state s)
                 in (fs, s\<lparr>real_service := Some r', fallback_active := True,
                           random_state := g\<rparr>)))
       \<and> generate_single_embedding api rt text s =
           (case real_generate_single_embedding api text r of
              (Inr v, r') \<Rightarrow>
                if v \<noteq> [] then (Inr v, s\<lparr>real_service := Some r'\<rparr>)
                else (case generate_embeddings api rt [text] (s\<lparr>real_service := Some r'\<rparr>) of
                        (es, s2) \<Rightarrow>
                          (case es of [] \<Rightarrow> (Inl IndexError, s2) | e # _ \<Rightarrow> (Inr e, s2)))
            | (Inl e, r') \<Rightarrow>
                (let (v, g) =
                       draw_uniform rt (embedding_dim s)
                         (rng_seed rt (str_hash rt text mod 10000))
                 in (Inr v, s\<lparr>real_service := Some r', fallback_active := True,
                              random_state := g\<rparr>)))"
  using gen_response_real [OF assms] gen_embeddings_real [OF assms] gen_single_real [OF assms]
  by (intro conjI)

lemma demo_fallback_reply:
  "generate_fallback_response toy_runtime (prompt demo_request) (gen_context demo_request) 0
     = (GeneralReply ''hello there'', 0)"
  by code_simp

theorem real_state_generate_witness:
  "real_service (vertex_init (Inr (0::nat)) (0::int)) = Some 0
   \<and> \<not> fallback_active (vertex_init (Inr (0::nat)) (0::int))
   \<and> generate_response (spy_api True (Inl (Exception ''unavailable'')) (Inr []) (Inr []))
        toy_runtime toy_render demo_request (vertex_init (Inr 0) 0)
       = (''general: hello there'',
          (vertex_init (Inr 0) 0)\<lparr>real_service := Some 1, fallback_active := True,
                                    random_state := 0\<rparr>)
   \<and> generate_response (spy_api True (Inr ''a real answer, long enough'') (Inr []) (Inr []))
        toy_runtime toy_render demo_request (vertex_init (Inr 0) 0)
       = (''a real answer, long enough'', (vertex_init (Inr 0) 0)\<lparr>real_service := Some 1\<rparr>)"
proof -
  have a: "real_service (vertex_init (Inr (0::nat)) (0::int)) = Some 0"
    by (simp add: vertex_init_def)
  have b: "\<not> fallback_active (vertex_init (Inr (0::nat)) (0::int))"
    by (simp add: vertex_init_def)
  have g: "random_state (vertex_init (Inr (0::nat)) (0::int)) = 0"
    by (simp add: vertex_init_def)
  from real_state_generate [OF a b,
      of "spy_api True (Inl (Exception ''unavailable'')) (Inr []) (Inr [])"
         toy_runtime toy_render demo_request]
  have c: "generate_response (spy_api True (Inl (Exception ''unavailable'')) (Inr []) (Inr []))
        toy_runtime toy_render demo_request (vertex_init (Inr 0) 0)
       = (''general: hello there'',
          (vertex_init (Inr 0) 0)\<lparr>real_service := Some 1, fallback_active := True,
                                    random_state := 0\<rparr>)"
    by (simp add: spy_api_def g demo_fallback_reply toy_render_def)
  from real_state_generate [OF a b,
      of "spy_api True (Inr ''a real answer, long enough'') (Inr []) (Inr [])"
         toy_runtime toy_render demo_request]
  have d: "generate_response (spy_api True (Inr ''a real answer, long enough'') (Inr []) (Inr []))
        toy_runtime toy_render demo_request (vertex_init (Inr 0) 0)
       = (''a real answer, long enough'', (vertex_init (Inr 0) 0)\<lparr>real_service := Some 1\<rparr>)"
    by (simp add: spy_api_def)
  from a b c d show ?thesis
    by (intro conjI)
qed

text \<open>
  Claim C5 as stated fails: a real service that answers with a text of 9 characters
  leaves the facade in the REAL state.
\<close>

theorem degenerate_result_counterexample:
  "real_service (vertex_init (Inr (0::nat)) (0::int)) = Some 0
   \<and> \<not> fallback_active (vertex_init (Inr (0::nat)) (0::int))
   \<and> fst (real_generate_response (spy_api True (Inr ''too short'') (Inr []) (Inr []))
            demo_request 0) = Inr ''too short''
   \<and> length ''too short'' \<le> 10
   \<and> \<not> fallback_active
         (snd (generate_response (spy_api True (Inr ''too short'') (Inr []) (Inr []))
                 toy_runtime toy_render demo_request (vertex_init (Inr 0) 0)))"
  by (simp add: vertex_init_def spy_api_def generate_response_def case_prod_beta)

text \<open>
  Within one process, that is under one text hash and one generator (the runtime \<open>rt\<close>), two
  facades that serve embeddings from the fallback backend return the same vectors for
  the same texts, whatever the state of the random generator and of the facades
  otherwise; the result has one vector per text, each of length 768, and the vector at
  a position is the vector of the text at that position.
\<close>

lemma fallback_embeddings_same_runtime:
  assumes "real_service s1 = None \<or> fallback_active s1"
    and "real_service s2 = None \<or> fallback_active s2"
    and "embedding_dim s1 = 768" and "embedding_dim s2 = 768"
  shows "fst (generate_embeddings api1 rt texts s1) = fst (generate_embeddings api2 rt texts s2)
       \<and> length (fst (generate_embeddings api1 rt texts s1)) = length texts
       \<and> (\<forall>i<length texts.
             length (fst (generate_embeddings api1 rt texts s1) ! i) = 768
             \<and> [fst (generate_embeddings api1 rt texts s1) ! i]
                 = fst (generate_embeddings api1 rt [texts ! i] s1))"
  using assms
  by (simp add: gen_embeddings_fallback_fst length_draw_uniform)

lemma fallback_embeddings_same_runtime_example:
  "(real_service (vertex_init (Inl (Exception ''no credentials'')) (0::int) :: (nat, int) vertex_service) = None
      \<or> fallback_active (vertex_init (Inl (Exception ''no credentials'')) (0::int) :: (nat, int) vertex_service))
   \<and> (real_service degraded_facade = None \<or> fallback_active degraded_facade)
   \<and> embedding_dim (vertex_init (Inl (Exception ''no credentials'')) (0::int) :: (nat, int) vertex_service) = 768
   \<and> embedding_dim degraded_facade = 768
   \<and> fst (generate_embeddings (spy_api True (Inr []) (Inr []) (Inr [])) toy_runtime [''x'', ''y'']
             (vertex_init (Inl (Exception ''no credentials'')) 0))
       = fst (generate_embeddings (spy_api False (Inr []) (Inr [[1]]) (Inr [])) toy_runtime
               [''x'', ''y''] degraded_facade)
   \<and> length (fst (generate_embeddings (spy_api True (Inr []) (Inr []) (Inr [])) toy_runtime
                [''x'', ''y''] (vertex_init (Inl (Exception ''no credentials'')) 0))) = 2"
proof -
  let ?s1 = "vertex_init (Inl (Exception ''no credentials'')) (0::int) :: (nat, int) vertex_service"
  have a: "real_service ?s1 = None \<or> fallback_active ?s1"
    by (simp add: vertex_init_def)
  have b: "real_service degraded_facade = None \<or> fallback_active degraded_facade"
    by (simp add: degraded_facade_def health_check_def spy_api_def vertex_init_def)
  have c: "embedding_dim ?s1 = 768"
    by (simp add: vertex_init_def)
  have d: "embedding_dim degraded_facade = 768"
    by (simp add: degraded_facade_def health_check_def spy_api_def vertex_init_def)
  note t = fallback_embeddings_same_runtime [OF a b c d,
      of "spy_api True (Inr []) (Inr []) (Inr [])" toy_runtime "[''x'', ''y'']"
         "spy_api False (Inr []) (Inr [[1]]) (Inr [])"]
  from t have e:
    "fst (generate_embeddings (spy_api True (Inr []) (Inr []) (Inr [])) toy_runtime
            [''x'', ''y''] ?s1)
       = fst (generate_embeddings (spy_api False (Inr []) (Inr [[1]]) (Inr [])) toy_runtime
               [''x'', ''y''] degraded_facade)"
    by (rule conjunct1)
  from t have "length (fst (generate_embeddings (spy_api True (Inr []) (Inr []) (Inr []))
                toy_runtime [''x'', ''y''] ?s1)) = length [''x'', ''y'']"
    by (elim conjE)
  then have f: "length (fst (generate_embeddings (spy_api True (Inr []) (Inr []) (Inr []))
                toy_runtime [''x'', ''y''] ?s1)) = 2"
    by simp
  from a b c d e f show ?thesis
    by (intro conjI)
qed


lemma hd_draw_uniform:
  "0 < n \<Longrightarrow> hd (fst (draw_uniform rt n g)) = fst (rng_uniform rt (- 1) 1 g)"
  by (cases n) (simp_all add: case_prod_beta Let_def)

text \<open>
  Claim C7, evaluated. The seed of a vector is \<open>hash(text) % 10000\<close>, so the vectors follow
  the text hash of the process: the same facade, asked for the embedding of the same
  text under two salts of the text hash, as in two runs of the program, returns two
  different vectors. The vectors are not stable across process restarts.
\<close>

theorem fallback_embeddings_differ_across_salts:
  "fst (generate_embeddings (spy_api True (Inr []) (Inr []) (Inr [])) (salted_runtime 1) [''x'']
          (vertex_init (Inl (Exception ''no credentials'')) 0))
   \<noteq> fst (generate_embeddings (spy_api True (Inr []) (Inr []) (Inr [])) (salted_runtime 2) [''x'']
          (vertex_init (Inl (Exception ''no credentials'')) 0))"
proof -
  let ?s = "vertex_init (Inl (Exception ''no credentials'')) (0::int) :: (nat, int) vertex_service"
  let ?api = "spy_api True (Inr []) (Inr []) (Inr [])"
  have f: "real_service ?s = None \<or> fallback_active ?s"
    by (simp add: vertex_init_def)
  have d: "embedding_dim ?s = 768"
    by (simp add: vertex_init_def)
  have one: "hd (hd (fst (generate_embeddings ?api (salted_runtime 1) [''x''] ?s))) = 0"
    by (simp add: gen_embeddings_fallback_fst [OF f] d hd_draw_uniform salted_runtime_def
          toy_runtime_def)
  have two: "hd (hd (fst (generate_embeddings ?api (salted_runtime 2) [''x''] ?s))) = 1 / 2"
    by (simp add: gen_embeddings_fallback_fst [OF f] d hd_draw_uniform salted_runtime_def
          toy_runtime_def)
  show ?thesis
  proof
    assume "fst (generate_embeddings ?api (salted_runtime 1) [''x''] ?s)
            = fst (generate_embeddings ?api (salted_runtime 2) [''x''] ?s)"
    with one two show False by simp
  qed
qed


section \<open>Properties of the search service\<close>

lemma hybrid_search_primary_raises:
  assumes "search c index
             (primary_body query vector_field
                (text_fields_or_default tf) size' vq) = (Inl e, c1)"
  shows "hybrid_search search query index vector_field tf size' vq c =
     (case search c1 index
             (fallback_body query vector_field
                (text_fields_or_default tf) size') of
        (Inr response, c2) \<Rightarrow>
          (case shape_fallback response of
             Inr result \<Rightarrow> (result, c2)
           | Inl fallback_error \<Rightarrow> (empty_result, c2))
      | (Inl fallback_error, c2) \<Rightarrow> (empty_result, c2))"
  using assms by (simp add: hybrid_search_def hybrid_search_try_def)

text \<open>
  Claim C2. When the first request of \<open>hybrid_search\<close> raises, the service sends exactly one
  more request on the state the failed call left: the lexical multi-field query with the
  same query text, no vector clause. If that request answers, its shaped result is
  returned; if it raises too, the result is the empty set with total 0 and maximal
  score 0. (The model of \<open>hybrid_search\<close> has no exceptional result: each \<open>except\<close> block
  of the source ends in a \<open>return\<close>.)
\<close>

theorem hybrid_search_falls_back_once:
  assumes "search c index
             (primary_body query vector_field
                (text_fields_or_default tf) size' vq) = (Inl e, c1)"
  shows "(\<forall>response c2 result.
            search c1 index
              (fallback_body query vector_field
                 (text_fields_or_default tf) size')
              = (Inr response, c2)
            \<and> shape_fallback response = Inr result
            \<longrightarrow> hybrid_search search query index vector_field tf size' vq c = (result, c2))
       \<and> (\<forall>e2 c2.
            search c1 index
              (fallback_body query vector_field
                 (text_fields_or_default tf) size')
              = (Inl e2, c2)
            \<longrightarrow> hybrid_search search query index vector_field tf size' vq c
                  = (\<lparr>res_hits = JArr [], res_total = JInt 0, res_max_score = JInt 0\<rparr>, c2))
       \<and> fallback_body query vector_field
            (text_fields_or_default tf) size'
          = \<lparr>body_size = size',
             body_query =
               Some (MultiMatch query
                       (text_fields_or_default tf)
                       ''best_fields'' None),
             body_knn = None,
             body_source_excludes = [vector_field]\<rparr>"
  using hybrid_search_primary_raises [of search c index query vector_field tf size' vq e c1] assms
  by (simp add: empty_result_def fallback_body_def)

lemma shape_fallback_one_hit: "shape_fallback one_hit_response = Inr demo_hit_result"
  by (simp add: shape_fallback_def bind_exn_def py_getitem_def one_hit_response_def
        demo_hit_result_def)

theorem hybrid_search_falls_back_once_witness:
  "lexical_only_client [] DOCUMENTATION_INDEX
     (primary_body ''hybrid search'' ''embedding'' (text_fields_or_default None) 3 (Some [1]))
     = (Inl (Exception ''knn is not available''),
        [(DOCUMENTATION_INDEX,
          primary_body ''hybrid search'' ''embedding'' (text_fields_or_default None) 3
            (Some [1]))])
   \<and> hybrid_search lexical_only_client ''hybrid search'' DOCUMENTATION_INDEX ''embedding'' None 3
        (Some [1]) []
     = (demo_hit_result,
        [(DOCUMENTATION_INDEX,
          primary_body ''hybrid search'' ''embedding'' (text_fields_or_default None) 3
            (Some [1])),
         (DOCUMENTATION_INDEX,
          fallback_body ''hybrid search'' ''embedding'' (text_fields_or_default None) 3)])"
proof -
  let ?p = "primary_body ''hybrid search'' ''embedding'' (text_fields_or_default None) 3 (Some [1])"
  let ?f = "fallback_body ''hybrid search'' ''embedding'' (text_fields_or_default None) 3"
  have a: "lexical_only_client [] DOCUMENTATION_INDEX ?p
             = (Inl (Exception ''knn is not available''), [(DOCUMENTATION_INDEX, ?p)])"
    by (simp add: lexical_only_client_def primary_body_def truthy_vector_def)
  have b: "lexical_only_client [(DOCUMENTATION_INDEX, ?p)] DOCUMENTATION_INDEX ?f
             = (Inr one_hit_response, [(DOCUMENTATION_INDEX, ?p), (DOCUMENTATION_INDEX, ?f)])"
    by (simp add: lexical_only_client_def fallback_body_def)
  from hybrid_search_falls_back_once
         [where search = lexical_only_client and c = "[]" and index = DOCUMENTATION_INDEX
            and query = "''hybrid search''" and vector_field = "''embedding''" and tf = None
            and size' = 3 and vq = "Some [1]", OF a]
       b shape_fallback_one_hit
  have "hybrid_search lexical_only_client ''hybrid search'' DOCUMENTATION_INDEX ''embedding'' None 3
          (Some [1]) []
        = (demo_hit_result, [(DOCUMENTATION_INDEX, ?p), (DOCUMENTATION_INDEX, ?f)])"
    by blast
  with a show ?thesis
    by (intro conjI)
qed


section \<open>Properties of the context aggregator\<close>

lemma hybrid_search_both_raise:
  assumes "search c index (primary_body query vf fs size' vq) = (Inl e1, c1)"
    and "search c1 index (fallback_body query vf fs size') = (Inl e2, c2)"
  shows "hybrid_search search query index vf (Some fs) size' vq c = (empty_result, c2)"
  using assms
  by (simp add: hybrid_search_def hybrid_search_try_def text_fields_or_default_def)

lemma search_documentation_backend_fails:
  assumes "search c DOCUMENTATION_INDEX
             (primary_body query ''embedding'' docs_fields size' vq) = (Inl e1, c1)"
    and "search c1 DOCUMENTATION_INDEX
             (fallback_body query ''embedding'' docs_fields size') = (Inl e2, c2)"
  shows "search_documentation search query vq size' c = ([], c2)"
  using hybrid_search_both_raise [of search c DOCUMENTATION_INDEX query "''embedding''"
      docs_fields size' vq e1 c1 e2 c2] assms
  by (simp add: search_documentation_def empty_result_def py_iter_def bind_exn_def)

lemma search_devpost_backend_fails:
  assumes "search c DEVPOST_INDEX
             (primary_body query ''embedding'' devpost_fields size' vq)
             = (Inl e1, c1)"
    and "search c1 DEVPOST_INDEX
             (fallback_body query ''embedding'' devpost_fields size')
             = (Inl e2, c2)"
  shows "search_devpost_projects search query vq size' c = ([], c2)"
  using hybrid_search_both_raise [of search c DEVPOST_INDEX query "''embedding''"
      devpost_fields size' vq e1 c1 e2 c2] assms
  by (simp add: search_devpost_projects_def empty_result_def py_iter_def bind_exn_def)

lemma documentation_step_no_docs:
  "search_documentation search message (Some emb) 3 c = ([], c2)
   \<Longrightarrow> documentation_step search fmt message emb cd c = (None, cd, c2)"
  by (simp add: documentation_step_def)

lemma projects_step_no_projects:
  "context_type cd = ''idea_validation'' \<or> context_type cd = ''inspiration''
   \<Longrightarrow> search_devpost_projects search message (Some emb) 3 c = ([], c2)
   \<Longrightarrow> projects_step search fmt message emb cd c = (None, cd, c2)"
  by (auto simp add: projects_step_def)

lemma activity_step_fetch_raises:
  "fetch h url 3 = (Inl e, h1) \<Longrightarrow> context_type cd = ''progress'' \<Longrightarrow> url \<noteq> []
   \<Longrightarrow> activity_step fetch fmt (Some url) cd h = (None, cd, h1)"
  by (simp add: activity_step_def get_repository_activity_def truthy_str_def)

lemma activity_step_no_url:
  "repo_url = None \<or> repo_url = Some [] \<Longrightarrow> activity_step fetch fmt repo_url cd h = (None, cd, h)"
  by (auto simp add: activity_step_def truthy_str_def)

lemma gather_context_all_steps:
  assumes "documentation_step search fmt message emb (initial_context message ct) c
             = (None, cd1, c3)"
    and "projects_step search fmt message emb cd1 c3 = (None, cd2, c4)"
    and "activity_step fetch fmt repo_url cd2 h = (r, cd3, h2)"
  shows "gather_context search fetch fmt message emb ct repo_url c h = (cd3, c4, h2)"
  using assms by (simp add: gather_context_def)

lemma gather_context_step_raises:
  "documentation_step search fmt message emb (initial_context message ct) c = (Some e, cd1, c3)
   \<Longrightarrow> gather_context search fetch fmt message emb ct repo_url c h = (cd1, c3, h)"
  "documentation_step search fmt message emb (initial_context message ct) c = (None, cd1, c3)
   \<Longrightarrow> projects_step search fmt message emb cd1 c3 = (Some e, cd2, c4)
   \<Longrightarrow> gather_context search fetch fmt message emb ct repo_url c h = (cd2, c4, h)"
  by (simp_all add: gather_context_def)

lemma gather_context_no_url:
  assumes "repo_url = None \<or> repo_url = Some []"
  shows "snd (snd (gather_context search fetch fmt message emb ct repo_url c h)) = h"
    and "gather_context search fetch fmt message emb ct repo_url c h
         = gather_context search fetch' fmt message emb ct repo_url c h"
  using assms
  by (auto simp add: gather_context_def activity_step_no_url split: prod.splits option.splits)


text \<open>
  Claim C3. A retrieval step whose backend fails contributes nothing and raises nothing:
  when both requests of the documentation search (or of the project search) raise, or
  the activity fetch raises, the step returns the context data unchanged. The steps run
  in order whenever the earlier ones did not raise, so such a failure does not end the
  aggregation; when a step does raise while formatting, \<open>_gather_context\<close> returns the context
  data as it stands. Without a repository URL the activity step does not call the
  hosting service: its state is unchanged and the result does not depend on it.
\<close>

theorem gather_context_resilient:
  "(search c DOCUMENTATION_INDEX (primary_body message ''embedding'' docs_fields 3 (Some emb))
      = (Inl e1, c1)
    \<and> search c1 DOCUMENTATION_INDEX (fallback_body message ''embedding'' docs_fields 3)
      = (Inl e2, c2)
    \<longrightarrow> documentation_step search fmt message emb cd c = (None, cd, c2))
 \<and> ((context_type cd = ''idea_validation'' \<or> context_type cd = ''inspiration'')
    \<and> search c DEVPOST_INDEX (primary_body message ''embedding'' devpost_fields 3 (Some emb))
      = (Inl e1, c1)
    \<and> search c1 DEVPOST_INDEX (fallback_body message ''embedding'' devpost_fields 3)
      = (Inl e2, c2)
    \<longrightarrow> projects_step search fmt message emb cd c = (None, cd, c2))
 \<and> (context_type cd = ''progress'' \<and> url \<noteq> [] \<and> fetch h url 3 = (Inl e3, h1)
    \<longrightarrow> activity_step fetch fmt (Some url) cd h = (None, cd, h1))
 \<and> (documentation_step search fmt message emb (initial_context message ct) c = (None, cd1, c3)
    \<and> projects_step search fmt message emb cd1 c3 = (None, cd2, c4)
    \<and> activity_step fetch fmt repo_url cd2 h = (r, cd3, h2)
    \<longrightarrow> gather_context search fetch fmt message emb ct repo_url c h = (cd3, c4, h2))
 \<and> (documentation_step search fmt message emb (initial_context message ct) c = (Some e, cd1, c3)
    \<longrightarrow> gather_context search fetch fmt message emb ct repo_url c h = (cd1, c3, h))
 \<and> (documentation_step search fmt message emb (initial_context message ct) c = (None, cd1, c3)
    \<and> projects_step search fmt message emb cd1 c3 = (Some e, cd2, c4)
    \<longrightarrow> gather_context search fetch fmt message emb ct repo_url c h = (cd2, c4, h))
 \<and> (repo_url = None \<or> repo_url = Some []
    \<longrightarrow> activity_step fetch fmt repo_url cd h = (None, cd, h)
        \<and> snd (snd (gather_context search fetch fmt message emb ct repo_url c h)) = h
        \<and> gather_context search fetch fmt message emb ct repo_url c h
            = gather_context search fetch' fmt message emb ct repo_url c h)"
proof (intro conjI impI)
  assume "search c DOCUMENTATION_INDEX (primary_body message ''embedding'' docs_fields 3 (Some emb))
      = (Inl e1, c1)
    \<and> search c1 DOCUMENTATION_INDEX (fallback_body message ''embedding'' docs_fields 3)
      = (Inl e2, c2)"
  then show "documentation_step search fmt message emb cd c = (None, cd, c2)"
    using search_documentation_backend_fails [of search c message 3 "Some emb" e1 c1 e2 c2]
    by (simp add: documentation_step_no_docs)
next
  assume a: "(context_type cd = ''idea_validation'' \<or> context_type cd = ''inspiration'')
    \<and> search c DEVPOST_INDEX (primary_body message ''embedding'' devpost_fields 3 (Some emb))
      = (Inl e1, c1)
    \<and> search c1 DEVPOST_INDEX (fallback_body message ''embedding'' devpost_fields 3)
      = (Inl e2, c2)"
  then have "search_devpost_projects search message (Some emb) 3 c = ([], c2)"
    using search_devpost_backend_fails [of search c message 3 "Some emb" e1 c1 e2 c2]
    by simp
  with a show "projects_step search fmt message emb cd c = (None, cd, c2)"
    using projects_step_no_projects [of cd search message emb c c2 fmt] by blast
next
  assume "context_type cd = ''progress'' \<and> url \<noteq> [] \<and> fetch h url 3 = (Inl e3, h1)"
  then show "activity_step fetch fmt (Some url) cd h = (None, cd, h1)"
    by (simp add: activity_step_fetch_raises)
next
  assume "documentation_step search fmt message emb (initial_context message ct) c = (None, cd1, c3)
    \<and> projects_step search fmt message emb cd1 c3 = (None, cd2, c4)
    \<and> activity_step fetch fmt repo_url cd2 h = (r, cd3, h2)"
  then show "gather_context search fetch fmt message emb ct repo_url c h = (cd3, c4, h2)"
    by (simp add: gather_context_all_steps)
next
  assume "documentation_step search fmt message emb (initial_context message ct) c = (Some e, cd1, c3)"
  then show "gather_context search fetch fmt message emb ct repo_url c h = (cd1, c3, h)"
    by (rule gather_context_step_raises(1))
next
  assume "documentation_step search fmt message emb (initial_context message ct) c = (None, cd1, c3)
    \<and> projects_step search fmt message emb cd1 c3 = (Some e, cd2, c4)"
  then show "gather_context search fetch fmt message emb ct repo_url c h = (cd2, c4, h)"
    by (simp add: gather_context_step_raises(2))
next
  assume "repo_url = None \<or> repo_url = Some []"
  then show "activity_step fetch fmt repo_url cd h = (None, cd, h)"
    by (rule activity_step_no_url)
next
  assume "repo_url = None \<or> repo_url = Some []"
  then show "snd (snd (gather_context search fetch fmt message emb ct repo_url c h)) = h"
    by (rule gather_context_no_url(1))
next
  assume "repo_url = None \<or> repo_url = Some []"
  then show "gather_context search fetch fmt message emb ct repo_url c h
            = gather_context search fetch' fmt message emb ct repo_url c h"
    by (rule gather_context_no_url(2))
qed


theorem gather_context_resilient_witness:
  "failing_client [] DOCUMENTATION_INDEX
     (primary_body ''how are we doing'' ''embedding'' docs_fields 3 (Some [1]))
     = (Inl (Exception ''connection refused''),
        [(DOCUMENTATION_INDEX,
          primary_body ''how are we doing'' ''embedding'' docs_fields 3 (Some [1]))])
   \<and> documentation_step failing_client toy_format ''how are we doing'' [1] progress_context []
     = (None, progress_context,
        [(DOCUMENTATION_INDEX,
          primary_body ''how are we doing'' ''embedding'' docs_fields 3 (Some [1])),
         (DOCUMENTATION_INDEX, fallback_body ''how are we doing'' ''embedding'' docs_fields 3)])
   \<and> context_type progress_context = ''progress''
   \<and> counting_fetch 0 ''https://github.com/team/app'' 3 = (Inl (Exception ''rate limited''), 1)
   \<and> activity_step counting_fetch toy_format (Some ''https://github.com/team/app'')
        progress_context 0 = (None, progress_context, 1)
   \<and> snd (snd (gather_context failing_client counting_fetch toy_format ''how are we doing'' [1]
                  (Some ''progress'') None [] 0)) = 0"
proof -
  let ?p = "primary_body ''how are we doing'' ''embedding'' docs_fields 3 (Some [1])"
  let ?f = "fallback_body ''how are we doing'' ''embedding'' docs_fields 3"
  have a: "failing_client [] DOCUMENTATION_INDEX ?p
             = (Inl (Exception ''connection refused''), [(DOCUMENTATION_INDEX, ?p)])"
    by (simp add: failing_client_def)
  have b: "failing_client [(DOCUMENTATION_INDEX, ?p)] DOCUMENTATION_INDEX ?f
             = (Inl (Exception ''connection refused''),
                [(DOCUMENTATION_INDEX, ?p), (DOCUMENTATION_INDEX, ?f)])"
    by (simp add: failing_client_def)
  have c: "context_type progress_context = ''progress''"
    by (simp add: progress_context_def initial_context_def truthy_str_def)
  have d: "counting_fetch 0 ''https://github.com/team/app'' 3
             = (Inl (Exception ''rate limited''), 1)"
    by (simp add: counting_fetch_def)
  note t = gather_context_resilient
      [where search = failing_client and c = "[]" and message = "''how are we doing''"
         and emb = "[1]" and fmt = toy_format and cd = progress_context
         and fetch = counting_fetch and h = 0 and url = "''https://github.com/team/app''"
         and repo_url = None and ct = "Some ''progress''"]
  from t a b have s1:
    "documentation_step failing_client toy_format ''how are we doing'' [1] progress_context []
       = (None, progress_context, [(DOCUMENTATION_INDEX, ?p), (DOCUMENTATION_INDEX, ?f)])"
    by blast
  from t c d have s2:
    "activity_step counting_fetch toy_format (Some ''https://github.com/team/app'')
        progress_context 0 = (None, progress_context, 1)"
    by blast
  from t have s3:
    "snd (snd (gather_context failing_client counting_fetch toy_format ''how are we doing'' [1]
                  (Some ''progress'') None [] 0)) = 0"
    by blast
  from a s1 c d s2 s3 show ?thesis
    by (intro conjI)
qed


section \<open>Properties of the search endpoint\<close>

lemma generate_embeddings_single_nonempty:
  "fst (generate_embeddings api rt [t] s) \<noteq> []"
  by (auto simp: generate_embeddings_def Let_def case_prod_beta
        split: option.splits prod.splits sum.splits if_splits)

lemma generate_single_embedding_returns:
  "\<exists>e s1. generate_single_embedding api rt t s = (Inr e, s1)"
proof -
  have tail: "\<exists>e s1. (case generate_embeddings api rt [t] s' of
           (embeddings, s2) \<Rightarrow>
             (case embeddings of [] \<Rightarrow> (Inl IndexError, s2) | e # _ \<Rightarrow> (Inr e, s2)))
         = (Inr e, s1)" for s'
  proof (cases "generate_embeddings api rt [t] s'")
    case (Pair es s2)
    with generate_embeddings_single_nonempty [of api rt t s'] have "es \<noteq> []"
      by simp
    with Pair show ?thesis
      by (cases es) simp_all
  qed
  show ?thesis
    unfolding generate_single_embedding_def using tail
    by (auto simp: Let_def split: option.splits prod.splits sum.splits if_splits)
qed

lemma query_embedding_of_returns:
  "\<exists>qe s1. query_embedding_of api rt request s = (Inr qe, s1)"
  using generate_single_embedding_returns [of api rt "req_query request" s]
  by (auto simp: query_embedding_of_def)

lemma append_results_acc:
  "append_results f xs acc = acc @ append_results f xs []"
proof (induction xs arbitrary: acc)
  case Nil
  show ?case by simp
next
  case (Cons x xs)
  show ?case
  proof (cases "f x")
    case (Inl e)
    then show ?thesis by simp
  next
    case (Inr r)
    with Cons.IH [of "acc @ [r]"] Cons.IH [of "[r]"] show ?thesis by simp
  qed
qed

lemma project_result_source:
  "project_result v p = Inr r \<Longrightarrow> item_source r = ''devpost''"
  by (auto simp: project_result_def bind_exn_def split: sum.splits)

lemma doc_result_source:
  "doc_result v d = Inr r \<Longrightarrow> item_source r = ''documentation''"
  by (auto simp: doc_result_def bind_exn_def split: sum.splits)

lemma append_results_from:
  "r \<in> set (append_results f xs []) \<Longrightarrow> \<exists>x \<in> set xs. f x = Inr r"
proof (induction xs)
  case Nil
  then show ?case by simp
next
  case (Cons x xs)
  show ?case
  proof (cases "f x")
    case (Inl e)
    with Cons.prems show ?thesis by simp
  next
    case (Inr y)
    with Cons.prems have "r \<in> set ([y] @ append_results f xs [])"
      using append_results_acc [of f xs "[y]"] by simp
    with Inr Cons.IH show ?thesis by auto
  qed
qed

lemma sorted_desc:
  "sorted_wrt (\<lambda>a b. item_score b \<le> item_score a) (sort_key (\<lambda>x. - item_score x) xs)"
proof -
  have "sorted (map (\<lambda>x. - item_score x) (sort_key (\<lambda>x. - item_score x) xs))"
    by (rule sorted_sort_key)
  then show ?thesis
    by (simp add: sorted_map sorted_wrt_iff_nth_less)
qed

lemma py_prefix_take: "\<exists>k. py_prefix n xs = take k xs"
  by (auto simp: py_prefix_def)

lemma sorted_wrt_py_prefix: "sorted_wrt P xs \<Longrightarrow> sorted_wrt P (py_prefix n xs)"
  using py_prefix_take [of n xs] by (auto simp: sorted_wrt_take)

lemma set_py_prefix: "set (py_prefix n xs) \<subseteq> set xs"
  using py_prefix_take [of n xs] by (auto dest: in_set_takeD)

lemma length_py_prefix: "length (py_prefix n xs) \<le> length xs"
  using py_prefix_take [of n xs] by auto


lemma search_endpoint_two_indices:
  assumes idx: "req_index request = None \<or> req_index request = Some []"
    and qe: "query_embedding_of api rt request s = (Inr qe, s1)"
    and ps: "search_devpost_projects search (req_query request)
               (if req_search_type request \<noteq> ''keyword'' then qe else None)
               (req_size request) c = (projects, c1)"
    and ds: "search_documentation search (req_query request)
               (if req_search_type request \<noteq> ''keyword'' then qe else None)
               (req_size request) c1 = (docs, c2)"
  shows "search_endpoint api rt v search request s c =
     (Inr \<lparr>resp_results =
             py_prefix (req_size request)
               (sort_key (\<lambda>x. - item_score x)
                  (append_results (project_result v) projects []
                   @ append_results (doc_result v) docs [])),
           resp_total =
             int (length (append_results (project_result v) projects []
                          @ append_results (doc_result v) docs [])),
           resp_query = req_query request,
           resp_search_type = req_search_type request\<rparr>,
      s1, c2)"
proof -
  from idx have i: "indices_to_search request = [''devpost_projects'', ''hackathon_docs'']"
    by (auto simp: indices_to_search_def truthy_str_def)
  have one: "search_one_index v search request qe ''devpost_projects'' [] c
               = (append_results (project_result v) projects [], c1)"
    using ps by (simp add: search_one_index_def)
  have two: "search_one_index v search request qe ''hackathon_docs''
               (append_results (project_result v) projects []) c1
               = (append_results (project_result v) projects []
                  @ append_results (doc_result v) docs [], c2)"
    using ds append_results_acc [of "doc_result v" docs "append_results (project_result v) projects []"]
    by (simp add: search_one_index_def)
  have "search_indices v search request qe (indices_to_search request) [] c
          = (append_results (project_result v) projects []
             @ append_results (doc_result v) docs [], c2)"
    by (simp add: i one two)
  with qe show ?thesis
    by (simp add: search_endpoint_def)
qed

text \<open>
  Claim C9. A search with no index given searches the project index and then the
  documentation index. The results built for the two indices (\<open>P\<close> and \<open>D\<close>) are put into one
  list; every item of \<open>P\<close> carries the source \<open>devpost\<close> and every item of \<open>D\<close> the source
  \<open>documentation\<close>. The response holds the list sorted by descending score (a rearrangement
  of \<open>P @ D\<close>) and cut by \<open>[:size]\<close>, which for a size that is not negative keeps the first
  \<open>size\<close> items; the total is the length of \<open>P @ D\<close>, before the cut, so it can exceed the
  number of results returned.
\<close>

theorem search_merges_sorts_truncates:
  assumes "req_index request = None \<or> req_index request = Some []"
  shows "\<exists>qe s1 projects c1 docs c2 P D.
      query_embedding_of api rt request s = (Inr qe, s1)
    \<and> search_devpost_projects search (req_query request)
        (if req_search_type request \<noteq> ''keyword'' then qe else None) (req_size request) c
        = (projects, c1)
    \<and> search_documentation search (req_query request)
        (if req_search_type request \<noteq> ''keyword'' then qe else None) (req_size request) c1
        = (docs, c2)
    \<and> P = append_results (project_result v) projects []
    \<and> D = append_results (doc_result v) docs []
    \<and> search_endpoint api rt v search request s c =
        (Inr \<lparr>resp_results =
                py_prefix (req_size request) (sort_key (\<lambda>x. - item_score x) (P @ D)),
              resp_total = int (length (P @ D)),
              resp_query = req_query request,
              resp_search_type = req_search_type request\<rparr>,
         s1, c2)
    \<and> (\<forall>r \<in> set P. item_source r = ''devpost'')
    \<and> (\<forall>r \<in> set D. item_source r = ''documentation'')
    \<and> mset (sort_key (\<lambda>x. - item_score x) (P @ D)) = mset (P @ D)
    \<and> sorted_wrt (\<lambda>a b. item_score b \<le> item_score a)
        (sort_key (\<lambda>x. - item_score x) (P @ D))
    \<and> (0 \<le> req_size request \<longrightarrow>
          py_prefix (req_size request) (sort_key (\<lambda>x. - item_score x) (P @ D))
          = take (nat (req_size request)) (sort_key (\<lambda>x. - item_score x) (P @ D)))
    \<and> length (py_prefix (req_size request) (sort_key (\<lambda>x. - item_score x) (P @ D)))
        \<le> length (P @ D)"
proof -
  obtain qe s1 where qe: "query_embedding_of api rt request s = (Inr qe, s1)"
    using query_embedding_of_returns [of api rt request s] by blast
  obtain projects c1 where ps: "search_devpost_projects search (req_query request)
        (if req_search_type request \<noteq> ''keyword'' then qe else None) (req_size request) c
        = (projects, c1)"
    by (cases "search_devpost_projects search (req_query request)
        (if req_search_type request \<noteq> ''keyword'' then qe else None) (req_size request) c")
  obtain docs c2 where ds: "search_documentation search (req_query request)
        (if req_search_type request \<noteq> ''keyword'' then qe else None) (req_size request) c1
        = (docs, c2)"
    by (cases "search_documentation search (req_query request)
        (if req_search_type request \<noteq> ''keyword'' then qe else None) (req_size request) c1")
  define P where "P = append_results (project_result v) projects []"
  define D where "D = append_results (doc_result v) docs []"
  have e: "search_endpoint api rt v search request s c =
        (Inr \<lparr>resp_results =
                py_prefix (req_size request) (sort_key (\<lambda>x. - item_score x) (P @ D)),
              resp_total = int (length (P @ D)),
              resp_query = req_query request,
              resp_search_type = req_search_type request\<rparr>,
         s1, c2)"
    unfolding P_def D_def by (rule search_endpoint_two_indices [OF assms qe ps ds])
  have sp: "\<forall>r \<in> set P. item_source r = ''devpost''"
    unfolding P_def using append_results_from [of _ "project_result v" projects]
    by (blast dest: project_result_source)
  have sd: "\<forall>r \<in> set D. item_source r = ''documentation''"
    unfolding D_def using append_results_from [of _ "doc_result v" docs]
    by (blast dest: doc_result_source)
  have m: "mset (sort_key (\<lambda>x. - item_score x) (P @ D)) = mset (P @ D)"
    by simp
  have so: "sorted_wrt (\<lambda>a b. item_score b \<le> item_score a)
        (sort_key (\<lambda>x. - item_score x) (P @ D))"
    by (rule sorted_desc)
  have tk: "0 \<le> req_size request \<longrightarrow>
          py_prefix (req_size request) (sort_key (\<lambda>x. - item_score x) (P @ D))
          = take (nat (req_size request)) (sort_key (\<lambda>x. - item_score x) (P @ D))"
    by (simp add: py_prefix_def)
  have le: "length (py_prefix (req_size request) (sort_key (\<lambda>x. - item_score x) (P @ D)))
        \<le> length (P @ D)"
    using length_py_prefix [of "req_size request" "sort_key (\<lambda>x. - item_score x) (P @ D)"]
    by simp
  from qe ps ds P_def D_def e sp sd m so tk le show ?thesis
    by blast
qed


lemma demo_projects:
  "append_results (project_result plain_validation)
     (fst (search_devpost_projects two_index_client ''recipes'' None 2 0)) []
   = [recipe_box_item, meal_planner_item]
   \<and> snd (search_devpost_projects two_index_client ''recipes'' None 2 0) = 1"
  by (simp add: search_devpost_projects_def hybrid_search_def hybrid_search_try_def
        two_index_client_def shape_primary_def bind_exn_def py_getitem_def py_in_def py_iter_def
        project_of_hit_def py_get_def DEVPOST_INDEX_def project_result_def plain_validation_def
        recipe_box_item_def meal_planner_item_def)

lemma demo_docs:
  "append_results (doc_result plain_validation)
     (fst (search_documentation two_index_client ''recipes'' None 2 1)) []
   = [rules_item]
   \<and> snd (search_documentation two_index_client ''recipes'' None 2 1) = 2"
  by (simp add: search_documentation_def hybrid_search_def hybrid_search_try_def
        two_index_client_def shape_primary_def bind_exn_def py_getitem_def py_in_def py_iter_def
        doc_of_hit_def py_get_def DOCUMENTATION_INDEX_def doc_result_def plain_validation_def
        py_slice_def py_add_str_def rules_item_def)

lemma demo_sort:
  "py_prefix 2 (sort_key (\<lambda>x. - item_score x) ([recipe_box_item, meal_planner_item] @ [rules_item]))
   = [meal_planner_item, rules_item]"
  by (simp add: py_prefix_def recipe_box_item_def meal_planner_item_def rules_item_def)

theorem search_merges_sorts_truncates_witness:
  "(req_index keyword_request = None \<or> req_index keyword_request = Some [])
   \<and> fst (search_endpoint (spy_api True (Inr []) (Inr []) (Inr [])) toy_runtime plain_validation
            two_index_client keyword_request (vertex_init (Inr 0) 0) 0)
     = Inr \<lparr>resp_results = [meal_planner_item, rules_item], resp_total = 3,
            resp_query = ''recipes'', resp_search_type = ''keyword''\<rparr>"
proof -
  have h: "req_index keyword_request = None \<or> req_index keyword_request = Some []"
    by (simp add: keyword_request_def)
  have k: "req_search_type keyword_request = ''keyword''" "req_query keyword_request = ''recipes''"
    "req_size keyword_request = 2"
    by (simp_all add: keyword_request_def)
  from search_merges_sorts_truncates [OF h, of "spy_api True (Inr []) (Inr []) (Inr [])"
      toy_runtime "vertex_init (Inr 0) 0" two_index_client 0 plain_validation]
  obtain qe s1 projects c1 docs c2 P D where
    ps: "search_devpost_projects two_index_client ''recipes'' None 2 0 = (projects, c1)"
    and ds: "search_documentation two_index_client ''recipes'' None 2 c1 = (docs, c2)"
    and P: "P = append_results (project_result plain_validation) projects []"
    and D: "D = append_results (doc_result plain_validation) docs []"
    and e: "search_endpoint (spy_api True (Inr []) (Inr []) (Inr [])) toy_runtime plain_validation
            two_index_client keyword_request (vertex_init (Inr 0) 0) 0
          = (Inr \<lparr>resp_results = py_prefix 2 (sort_key (\<lambda>x. - item_score x) (P @ D)),
                  resp_total = int (length (P @ D)),
                  resp_query = ''recipes'', resp_search_type = ''keyword''\<rparr>, s1, c2)"
    unfolding k by auto
  from ps demo_projects have p1: "P = [recipe_box_item, meal_planner_item]" and c1: "c1 = 1"
    unfolding P by simp_all
  from ds demo_docs have d1: "D = [rules_item]"
    unfolding D c1 by simp
  from e have "fst (search_endpoint (spy_api True (Inr []) (Inr []) (Inr [])) toy_runtime
            plain_validation two_index_client keyword_request (vertex_init (Inr 0) 0) 0)
     = Inr \<lparr>resp_results = [meal_planner_item, rules_item], resp_total = 3,
            resp_query = ''recipes'', resp_search_type = ''keyword''\<rparr>"
    unfolding p1 d1 demo_sort by simp
  with h show ?thesis
    by (intro conjI)
qed


section \<open>Properties of the webhook endpoint\<close>

lemma py_get_object: "is_object x \<Longrightarrow> py_get x key dflt = Inr (field_or x key dflt)"
  by (cases x) (simp_all add: is_object_def py_get_def field_or_def split: option.splits)

lemma py_len_array: "is_array x \<Longrightarrow> \<exists>n. py_len x = Inr n"
  by (cases x) (simp_all add: is_array_def py_len_def)

lemma commit_doc_id_object:
  "is_object commit \<Longrightarrow>
   commit_doc_id fmt commit = Inr (''commit_'' @ py_str fmt (field_or commit ''id'' (JStr [])))"
  by (simp add: commit_doc_id_def py_get_object bind_exn_def)

lemma commit_document_well_formed:
  assumes "well_formed_commit commit" and "is_object pusher"
  shows "\<exists>document. commit_document fmt repo_name repo_url pusher commit
           = Inr (''commit_'' @ py_str fmt (field_or commit ''id'' (JStr [])), document)"
proof -
  from assms(1) have o: "is_object commit"
    and a: "is_object (field_or commit ''author'' (JObj []))"
    and l1: "is_array (field_or commit ''added'' (JArr []))"
    and l2: "is_array (field_or commit ''modified'' (JArr []))"
    and l3: "is_array (field_or commit ''removed'' (JArr []))"
    by (simp_all add: well_formed_commit_def)
  from py_len_array [OF l1] obtain n1 where n1: "py_len (field_or commit ''added'' (JArr [])) = Inr n1"
    by blast
  from py_len_array [OF l2] obtain n2 where n2: "py_len (field_or commit ''modified'' (JArr [])) = Inr n2"
    by blast
  from py_len_array [OF l3] obtain n3 where n3: "py_len (field_or commit ''removed'' (JArr [])) = Inr n3"
    by blast
  show ?thesis
    by (simp add: commit_document_def commit_doc_id_object [OF o] py_get_object [OF o]
          py_get_object [OF a] py_get_object [OF assms(2)] n1 n2 n3 bind_exn_def)
qed

lemma push_loop_all_documents:
  "map_exn (commit_document fmt repo_name repo_url pusher) cs = Inr docs
   \<Longrightarrow> push_loop idx fmt repo_name repo_url pusher cs c = (None, upsert_all idx docs c)"
proof (induction cs arbitrary: c docs)
  case Nil
  then show ?case by (simp add: upsert_all_def)
next
  case (Cons commit cs)
  from Cons.prems obtain d ds where d: "commit_document fmt repo_name repo_url pusher commit = Inr d"
    and ds: "map_exn (commit_document fmt repo_name repo_url pusher) cs = Inr ds"
    and docs: "docs = d # ds"
    by (auto split: sum.splits)
  obtain doc_id document where dd: "d = (doc_id, document)"
    by (cases d)
  from Cons.IH [OF ds] d dd docs show ?case
    by (simp add: upsert_all_def index_document_def split: prod.splits sum.splits)
qed

lemma documents_well_formed:
  assumes "list_all well_formed_commit cs" and "is_object pusher"
  shows "\<exists>docs. map_exn (commit_document fmt repo_name repo_url pusher) cs = Inr docs
           \<and> map fst docs
               = map (\<lambda>commit. ''commit_'' @ py_str fmt (field_or commit ''id'' (JStr []))) cs"
  using assms(1)
proof (induction cs)
  case Nil
  then show ?case by simp
next
  case (Cons commit cs)
  then obtain docs where ds: "map_exn (commit_document fmt repo_name repo_url pusher) cs = Inr docs"
    and ids: "map fst docs
               = map (\<lambda>commit. ''commit_'' @ py_str fmt (field_or commit ''id'' (JStr []))) cs"
    by auto
  from Cons.prems have "well_formed_commit commit" by simp
  from commit_document_well_formed [OF this assms(2), of fmt repo_name repo_url]
  obtain document where "commit_document fmt repo_name repo_url pusher commit
           = Inr (''commit_'' @ py_str fmt (field_or commit ''id'' (JStr [])), document)"
    by blast
  with ds ids show ?case by simp
qed

lemma push_header_well_formed:
  assumes "well_formed_push payload"
  shows "push_header payload =
           Inr (field_or (field_or payload ''repository'' (JObj [])) ''full_name'' (JStr ''unknown''),
                field_or (field_or payload ''repository'' (JObj [])) ''html_url'' (JStr []),
                field_or payload ''pusher'' (JObj []),
                payload_commits payload)"
proof -
  from assms have o: "is_object payload"
    and r: "is_object (field_or payload ''repository'' (JObj []))"
    and c: "is_array (field_or payload ''commits'' (JArr []))"
    by (simp_all add: well_formed_push_def)
  from c have "py_iter (field_or payload ''commits'' (JArr [])) = Inr (payload_commits payload)"
    by (cases "field_or payload ''commits'' (JArr [])")
       (simp_all add: is_array_def py_iter_def payload_commits_def)
  then show ?thesis
    by (simp add: push_header_def py_get_object [OF o] py_get_object [OF r] bind_exn_def)
qed

lemma upsert_all_store:
  "upsert_all store_index docs m
     = m ++ map_of (rev (map (\<lambda>(doc_id, document). ((GITHUB_INDEX, doc_id), document)) docs))"
proof (induction docs arbitrary: m)
  case Nil
  show ?case by (simp add: upsert_all_def)
next
  case (Cons d docs)
  obtain doc_id document where d: "d = (doc_id, document)" by (cases d)
  have "upsert_all store_index (d # docs) m
          = upsert_all store_index docs (m((GITHUB_INDEX, doc_id) \<mapsto> document))"
    by (simp add: upsert_all_def store_index_def d)
  also have "\<dots> = m((GITHUB_INDEX, doc_id) \<mapsto> document)
        ++ map_of (rev (map (\<lambda>(doc_id, document). ((GITHUB_INDEX, doc_id), document)) docs))"
    by (rule Cons.IH)
  also have "\<dots> = m ++ map_of
        (rev (map (\<lambda>(doc_id, document). ((GITHUB_INDEX, doc_id), document)) (d # docs)))"
    by (rule ext) (simp add: d map_add_def split: option.splits)
  finally show ?case .
qed


lemma upsert_all_store_twice:
  "upsert_all store_index docs (upsert_all store_index docs m) = upsert_all store_index docs m"
  unfolding upsert_all_store by (rule ext) (simp add: map_add_def split: option.splits)

lemma dom_upsert_all_store:
  "dom (upsert_all store_index docs m) = dom m \<union> (\<lambda>d. (GITHUB_INDEX, fst d)) ` set docs"
proof (induction docs arbitrary: m)
  case Nil
  show ?case by (simp add: upsert_all_def)
next
  case (Cons d docs)
  obtain doc_id document where d: "d = (doc_id, document)" by (cases d)
  have "upsert_all store_index (d # docs) m
          = upsert_all store_index docs (m((GITHUB_INDEX, doc_id) \<mapsto> document))"
    by (simp add: upsert_all_def store_index_def d)
  then have "dom (upsert_all store_index (d # docs) m)
          = dom (m((GITHUB_INDEX, doc_id) \<mapsto> document))
            \<union> (\<lambda>d. (GITHUB_INDEX, fst d)) ` set docs"
    by (simp only: Cons.IH)
  also have "\<dots> = insert (GITHUB_INDEX, doc_id) (dom m \<union> (\<lambda>d. (GITHUB_INDEX, fst d)) ` set docs)"
    by simp
  also have "\<dots> = dom m \<union> (\<lambda>d. (GITHUB_INDEX, fst d)) ` set (d # docs)"
    by (simp add: d)
  finally show ?case .
qed

lemma push_documents_well_formed:
  assumes "well_formed_push payload"
  shows "\<exists>docs. map_exn (commit_document fmt
        (field_or (field_or payload ''repository'' (JObj [])) ''full_name'' (JStr ''unknown''))
        (field_or (field_or payload ''repository'' (JObj [])) ''html_url'' (JStr []))
        (field_or payload ''pusher'' (JObj []))) (payload_commits payload) = Inr docs
     \<and> map fst docs
         = map (\<lambda>commit. ''commit_'' @ py_str fmt (field_or commit ''id'' (JStr [])))
             (payload_commits payload)"
proof -
  from assms have p: "is_object (field_or payload ''pusher'' (JObj []))"
    and cs: "list_all well_formed_commit (payload_commits payload)"
    by (simp_all add: well_formed_push_def)
  from documents_well_formed [OF cs p] show ?thesis .
qed

lemma process_push_event_documents:
  assumes "well_formed_push payload"
    and "map_exn (commit_document fmt
        (field_or (field_or payload ''repository'' (JObj [])) ''full_name'' (JStr ''unknown''))
        (field_or (field_or payload ''repository'' (JObj [])) ''html_url'' (JStr []))
        (field_or payload ''pusher'' (JObj []))) (payload_commits payload) = Inr docs"
  shows "process_push_event idx fmt payload c = upsert_all idx docs c"
  by (simp add: process_push_event_def push_header_well_formed [OF assms(1)]
        push_loop_all_documents [OF assms(2)])

lemma pr_document_well_formed:
  assumes "well_formed_pr payload"
  shows "\<exists>document. pr_document fmt payload
           = Inr (''pr_'' @ py_str fmt
                    (field_or (field_or payload ''pull_request'' (JObj [])) ''id'' (JStr [])),
                  document)"
proof -
  from assms have o: "is_object payload"
    and p: "is_object (field_or payload ''pull_request'' (JObj []))"
    and r: "is_object (field_or payload ''repository'' (JObj []))"
    and u: "is_object (field_or (field_or payload ''pull_request'' (JObj [])) ''user'' (JObj []))"
    by (simp_all add: well_formed_pr_def)
  show ?thesis
    by (simp add: pr_document_def py_get_object [OF o] py_get_object [OF p]
          py_get_object [OF r] py_get_object [OF u] bind_exn_def)
qed

lemma dom_process_push_store:
  assumes "well_formed_push payload"
  shows "dom (process_push_event store_index fmt payload m)
           = dom m
             \<union> (\<lambda>commit. (GITHUB_INDEX,
                            ''commit_'' @ py_str fmt (field_or commit ''id'' (JStr []))))
               ` set (payload_commits payload)"
proof -
  from push_documents_well_formed [OF assms, of fmt]
  obtain docs where ds: "map_exn (commit_document fmt
        (field_or (field_or payload ''repository'' (JObj [])) ''full_name'' (JStr ''unknown''))
        (field_or (field_or payload ''repository'' (JObj [])) ''html_url'' (JStr []))
        (field_or payload ''pusher'' (JObj []))) (payload_commits payload) = Inr docs"
    and ids: "map fst docs
         = map (\<lambda>commit. ''commit_'' @ py_str fmt (field_or commit ''id'' (JStr [])))
             (payload_commits payload)"
    by blast
  have "(\<lambda>d. (GITHUB_INDEX, fst d)) ` set docs = (\<lambda>i. (GITHUB_INDEX, i)) ` set (map fst docs)"
    by (simp add: image_image)
  also have "\<dots> = (\<lambda>commit. (GITHUB_INDEX,
                              ''commit_'' @ py_str fmt (field_or commit ''id'' (JStr []))))
                 ` set (payload_commits payload)"
    unfolding ids by (simp add: image_image)
  finally show ?thesis
    by (simp add: process_push_event_documents [OF assms ds] dom_upsert_all_store)
qed

text \<open>
  Claim C6, as amended. For a well-formed push payload with N commits the handler issues
  N upserts to the activity index, one per commit in the order of the payload, on any
  client; the key of each is \<open>commit_\<close> followed by the commit's own id. The keys and
  documents are a function of the payload alone, so on an index that stores documents
  by key a second delivery of the payload changes nothing, and the keys added are those
  of the commits. A pull-request event issues one upsert keyed \<open>pr_\<close> followed by the id of
  the pull request.
\<close>

theorem push_event_upserts_per_commit:
  "(well_formed_push payload \<longrightarrow>
      (\<exists>docs. length docs = length (payload_commits payload)
         \<and> map fst docs
             = map (\<lambda>commit. ''commit_'' @ py_str fmt (field_or commit ''id'' (JStr [])))
                 (payload_commits payload)
         \<and> process_push_event idx fmt payload c = upsert_all idx docs c
         \<and> process_push_event store_index fmt payload
               (process_push_event store_index fmt payload m)
             = process_push_event store_index fmt payload m
         \<and> dom (process_push_event store_index fmt payload m)
             = dom m
               \<union> (\<lambda>commit. (GITHUB_INDEX,
                              ''commit_'' @ py_str fmt (field_or commit ''id'' (JStr []))))
                 ` set (payload_commits payload)))
   \<and> (well_formed_pr pr \<longrightarrow>
      (\<exists>document.
         process_pr_event idx fmt pr c
           = snd (idx c GITHUB_INDEX
                    (''pr_'' @ py_str fmt
                       (field_or (field_or pr ''pull_request'' (JObj [])) ''id'' (JStr [])))
                    document)))"
proof (intro conjI impI)
  assume w: "well_formed_push payload"
  from push_documents_well_formed [OF w, of fmt]
  obtain docs where ds: "map_exn (commit_document fmt
        (field_or (field_or payload ''repository'' (JObj [])) ''full_name'' (JStr ''unknown''))
        (field_or (field_or payload ''repository'' (JObj [])) ''html_url'' (JStr []))
        (field_or payload ''pusher'' (JObj []))) (payload_commits payload) = Inr docs"
    and ids: "map fst docs
         = map (\<lambda>commit. ''commit_'' @ py_str fmt (field_or commit ''id'' (JStr [])))
             (payload_commits payload)"
    by blast
  from ids have len: "length docs = length (payload_commits payload)"
    by (metis length_map)
  have any: "process_push_event idx fmt payload c = upsert_all idx docs c"
    by (rule process_push_event_documents [OF w ds])
  have st: "process_push_event store_index fmt payload m' = upsert_all store_index docs m'" for m'
    by (rule process_push_event_documents [OF w ds])
  have twice: "process_push_event store_index fmt payload
               (process_push_event store_index fmt payload m)
             = process_push_event store_index fmt payload m"
    by (simp add: st upsert_all_store_twice)
  have d: "dom (process_push_event store_index fmt payload m)
             = dom m
               \<union> (\<lambda>commit. (GITHUB_INDEX,
                              ''commit_'' @ py_str fmt (field_or commit ''id'' (JStr []))))
                 ` set (payload_commits payload)"
    by (rule dom_process_push_store [OF w])
  from len ids any twice d
  show "\<exists>docs. length docs = length (payload_commits payload)
         \<and> map fst docs
             = map (\<lambda>commit. ''commit_'' @ py_str fmt (field_or commit ''id'' (JStr [])))
                 (payload_commits payload)
         \<and> process_push_event idx fmt payload c = upsert_all idx docs c
         \<and> process_push_event store_index fmt payload
               (process_push_event store_index fmt payload m)
             = process_push_event store_index fmt payload m
         \<and> dom (process_push_event store_index fmt payload m)
             = dom m
               \<union> (\<lambda>commit. (GITHUB_INDEX,
                              ''commit_'' @ py_str fmt (field_or commit ''id'' (JStr []))))
                 ` set (payload_commits payload)"
    by blast
next
  assume w: "well_formed_pr pr"
  from pr_document_well_formed [OF w, of fmt]
  obtain document where "pr_document fmt pr
           = Inr (''pr_'' @ py_str fmt
                    (field_or (field_or pr ''pull_request'' (JObj [])) ''id'' (JStr [])),
                  document)"
    by blast
  then have "process_pr_event idx fmt pr c
           = snd (idx c GITHUB_INDEX
                    (''pr_'' @ py_str fmt
                       (field_or (field_or pr ''pull_request'' (JObj [])) ''id'' (JStr [])))
                    document)"
    by (simp add: process_pr_event_def index_document_def split: prod.splits sum.splits)
  then show "\<exists>document.
         process_pr_event idx fmt pr c
           = snd (idx c GITHUB_INDEX
                    (''pr_'' @ py_str fmt
                       (field_or (field_or pr ''pull_request'' (JObj [])) ''id'' (JStr [])))
                    document)"
    by blast
qed

lemma well_formed_push_ab: "well_formed_push push_ab"
  by (simp add: well_formed_push_def push_ab_def commit_a_def commit_b_def is_object_def
        is_array_def field_or_def py_get_def payload_commits_def well_formed_commit_def)

lemma well_formed_push_a: "well_formed_push push_a"
  by (simp add: well_formed_push_def push_a_def commit_a_def is_object_def
        is_array_def field_or_def py_get_def payload_commits_def well_formed_commit_def)

lemma well_formed_push_b: "well_formed_push push_b"
  by (simp add: well_formed_push_def push_b_def commit_b_def is_object_def
        is_array_def field_or_def py_get_def payload_commits_def well_formed_commit_def)

lemma payload_commits_demo:
  "payload_commits push_ab = [commit_a, commit_b]"
  "payload_commits push_a = [commit_a]"
  "payload_commits push_b = [commit_b]"
  by (simp_all add: push_ab_def push_a_def push_b_def payload_commits_def field_or_def py_get_def)

lemma commit_ids:
  "py_str toy_format (field_or commit_a ''id'' (JStr [])) = ''a1''"
  "py_str toy_format (field_or commit_b ''id'' (JStr [])) = ''b2''"
  by (simp_all add: commit_a_def commit_b_def field_or_def py_get_def py_str_def)

theorem push_event_upserts_per_commit_witness:
  "well_formed_push push_ab
   \<and> well_formed_pr pr_opened
   \<and> dom (process_push_event store_index toy_format push_ab empty_index)
       = {(GITHUB_INDEX, ''commit_a1''), (GITHUB_INDEX, ''commit_b2'')}
   \<and> process_push_event store_index toy_format push_ab
       (process_push_event store_index toy_format push_ab empty_index)
       = process_push_event store_index toy_format push_ab empty_index
   \<and> dom (process_pr_event store_index toy_format pr_opened empty_index)
       = {(GITHUB_INDEX, ''pr_7001'')}"
proof -
  have wp: "well_formed_pr pr_opened"
    by (simp add: well_formed_pr_def pr_opened_def is_object_def field_or_def py_get_def)
  note t = push_event_upserts_per_commit
      [where payload = push_ab and pr = pr_opened and fmt = toy_format and idx = store_index
         and c = empty_index and m = empty_index]
  from t well_formed_push_ab obtain docs where
    twice: "process_push_event store_index toy_format push_ab
       (process_push_event store_index toy_format push_ab empty_index)
       = process_push_event store_index toy_format push_ab empty_index"
    and d: "dom (process_push_event store_index toy_format push_ab empty_index)
             = dom empty_index
               \<union> (\<lambda>commit. (GITHUB_INDEX,
                     ''commit_'' @ py_str toy_format (field_or commit ''id'' (JStr []))))
                 ` set (payload_commits push_ab)"
    by blast
  from d have d2: "dom (process_push_event store_index toy_format push_ab empty_index)
       = {(GITHUB_INDEX, ''commit_a1''), (GITHUB_INDEX, ''commit_b2'')}"
    by (simp add: payload_commits_demo commit_ids empty_index_def)
  from t wp obtain document where
    "process_pr_event store_index toy_format pr_opened empty_index
       = snd (store_index empty_index GITHUB_INDEX
                (''pr_'' @ py_str toy_format
                   (field_or (field_or pr_opened ''pull_request'' (JObj [])) ''id'' (JStr [])))
                document)"
    by blast
  then have d3: "dom (process_pr_event store_index toy_format pr_opened empty_index)
       = {(GITHUB_INDEX, ''pr_7001'')}"
    by (simp add: store_index_def pr_opened_def field_or_def py_get_def py_str_def
          empty_index_def)
  from well_formed_push_ab wp d2 twice d3 show ?thesis
    by (intro conjI)
qed

text \<open>
  Claim C6 as stated fails: two push events of the same repository whose commits carry
  the same timestamp are stored under different keys, so the key is not derived from
  repository, event type and timestamp.
\<close>

theorem push_ids_counterexample:
  "field_or push_a ''repository'' (JObj []) = field_or push_b ''repository'' (JObj [])
   \<and> field_or commit_a ''timestamp'' (JStr []) = field_or commit_b ''timestamp'' (JStr [])
   \<and> dom (process_push_event store_index toy_format push_a empty_index)
       = {(GITHUB_INDEX, ''commit_a1'')}
   \<and> dom (process_push_event store_index toy_format push_b empty_index)
       = {(GITHUB_INDEX, ''commit_b2'')}"
proof -
  have r: "field_or push_a ''repository'' (JObj []) = field_or push_b ''repository'' (JObj [])"
    by (simp add: push_a_def push_b_def field_or_def py_get_def)
  have ts: "field_or commit_a ''timestamp'' (JStr []) = field_or commit_b ''timestamp'' (JStr [])"
    by (simp add: commit_a_def commit_b_def field_or_def py_get_def)
  have a: "dom (process_push_event store_index toy_format push_a empty_index)
       = {(GITHUB_INDEX, ''commit_a1'')}"
    by (simp add: dom_process_push_store [OF well_formed_push_a] payload_commits_demo commit_ids
          empty_index_def)
  have b: "dom (process_push_event store_index toy_format push_b empty_index)
       = {(GITHUB_INDEX, ''commit_b2'')}"
    by (simp add: dom_process_push_store [OF well_formed_push_b] payload_commits_demo commit_ids
          empty_index_def)
  from r ts a b show ?thesis
    by (intro conjI)
qed


lemma verified_push_is_scheduled:
  "verify_signature hmac_hex secret (raw_body request) (signature_256 request)
   \<Longrightarrow> loads (raw_body request) = Inr payload
   \<Longrightarrow> github_event request = Some ''push''
   \<Longrightarrow> github_webhook hmac_hex loads secret request
         = (Inr (''received'', Some ''push''), [ProcessPush payload])"
  by (simp add: github_webhook_def github_webhook_try_def)

lemma unverified_request_not_processed:
  "\<not> verify_signature hmac_hex secret (raw_body request) (signature_256 request)
   \<Longrightarrow> github_webhook hmac_hex loads secret request
         = (Inl (HTTPException 500 ''Webhook processing failed''), [])"
  by (simp add: github_webhook_def github_webhook_try_def)

text \<open>
  Claim C8, evaluated. A request without a signature header, a request when no secret is
  configured, and a request whose signature does not match are not processed (no task
  is scheduled), but the answer is the HTTP error 500: the error 401 raised in the \<open>try\<close>
  block is caught by the \<open>except Exception\<close> block of the same function.
\<close>

theorem webhook_rejection_is_500:
  "github_webhook hmac_hex loads ''s3cret''
     \<lparr>raw_body = ''{}'', signature_256 = None, github_event = Some ''push''\<rparr>
     = (Inl (HTTPException 500 ''Webhook processing failed''), [])
   \<and> github_webhook hmac_hex loads []
       \<lparr>raw_body = ''{}'', signature_256 = Some ''sha256=00ff'', github_event = Some ''push''\<rparr>
     = (Inl (HTTPException 500 ''Webhook processing failed''), [])
   \<and> github_webhook toy_hmac loads ''s3cret''
       \<lparr>raw_body = ''{}'', signature_256 = Some ''sha256=1234'', github_event = Some ''push''\<rparr>
     = (Inl (HTTPException 500 ''Webhook processing failed''), [])"
  by (simp add: github_webhook_def github_webhook_try_def verify_signature_def truthy_str_def
        compare_digest_def toy_hmac_def)

end
